theory Spec2Isabelle
  imports Complex_Main "HOL-Library.Sublist" "HOL-Library.Char_ord" "HOL-Library.Log_Nat"
begin

section \<open>Data model of \<^verbatim>\<open>compare.js\<close>\<close>

text \<open>
  The script compares two bundle reports. A report is the object parsed from a JSON file:
  page path to \<^verbatim>\<open>{raw, gzip}\<close>, with the shared bundle under the key \<^verbatim>\<open>__global\<close>.
  Sizes are byte counts, so they are integers here (JavaScript doubles are exact on them
  below \<open>2^53\<close>). A parsed object is an association list in the order in which
  \<^verbatim>\<open>for (page in obj)\<close> enumerates it; \<open>wf_report\<close> says that no key occurs twice.
  Keys are page paths: none is the name of a property that every object inherits
  (\<^verbatim>\<open>constructor\<close>, \<^verbatim>\<open>toString\<close>), which \<^verbatim>\<open>baseBundle[page]\<close> would find.
\<close>

record stats =
  raw :: int
  gzip :: int

type_synonym report = "(string \<times> stats) list"

definition wf_report :: "report \<Rightarrow> bool" where
  "wf_report r = distinct (map fst r)"

text \<open>
  The entries of \<^verbatim>\<open>changedPages\<close>, \<^verbatim>\<open>newPages\<close> and \<^verbatim>\<open>globalBundleChanges\<close>:
  the stats of the current branch spread into an object with the page name and, where the
  script sets them, \<^verbatim>\<open>rawDiff\<close>, \<^verbatim>\<open>gzipDiff\<close> and \<^verbatim>\<open>increase\<close>
  (\<open>None\<close> is a property the object does not have).
\<close>

record pagediff = stats +
  page :: string
  rawDiff :: "int option"
  gzipDiff :: "int option"
  increase :: "bool option"

text \<open>
  The options read from \<^verbatim>\<open>package.json\<close>. \<open>None\<close> is a key that is absent
  (\<^verbatim>\<open>undefined\<close>); the numbers are finite. \<^verbatim>\<open>skipCommentIfEmpty\<close> is only ever
  tested for truthiness, so it is a boolean.
\<close>

record options =
  budget :: "real option"
  budgetPercentIncreaseRed :: "real option"
  showDetails :: "bool option"
  name :: "string option"
  skipCommentIfEmpty :: bool
  minimumChangeThreshold :: "real option"

section \<open>Global bundle change and page classification\<close>

text \<open>
  \<^verbatim>\<open>!('minimumChangeThreshold' in options) || Math.abs(diff) > options.minimumChangeThreshold\<close>,
  the test used for the global bundle and for every page.
\<close>

definition over_threshold :: "options \<Rightarrow> int \<Rightarrow> bool" where
  "over_threshold opts d =
     (case minimumChangeThreshold opts of
        None \<Rightarrow> True
      | Some t \<Rightarrow> t < real_of_int \<bar>d\<bar>)"

definition globalGzipDiff :: "stats \<Rightarrow> stats \<Rightarrow> int" where
  "globalGzipDiff globalBundleCurrent globalBundleBase =
     gzip globalBundleCurrent - gzip globalBundleBase"

text \<open>\<^verbatim>\<open>globalBundleChanges\<close> is \<^verbatim>\<open>false\<close> (\<open>None\<close>) or the object built at lines 68-74.\<close>

definition globalBundleChanges :: "options \<Rightarrow> stats \<Rightarrow> stats \<Rightarrow> pagediff option" where
  "globalBundleChanges opts globalBundleCurrent globalBundleBase =
     (let d = globalGzipDiff globalBundleCurrent globalBundleBase in
      if d \<noteq> 0 \<and> over_threshold opts d
      then Some \<lparr> raw = raw globalBundleCurrent, gzip = gzip globalBundleCurrent,
                  page = ''global'', rawDiff = None, gzipDiff = Some d,
                  increase = Some (sgn d > 0) \<rparr>
      else None)"

definition new_page :: "string \<Rightarrow> stats \<Rightarrow> pagediff" where
  "new_page pg currentStats =
     \<lparr> raw = raw currentStats, gzip = gzip currentStats,
       page = pg, rawDiff = None, gzipDiff = None, increase = None \<rparr>"

definition changed_page :: "string \<Rightarrow> stats \<Rightarrow> stats \<Rightarrow> pagediff" where
  "changed_page pg currentStats baseStats =
     \<lparr> raw = raw currentStats, gzip = gzip currentStats,
       page = pg,
       rawDiff = Some (raw currentStats - raw baseStats),
       gzipDiff = Some (gzip currentStats - gzip baseStats),
       increase = Some (sgn (gzip currentStats - gzip baseStats) \<noteq> 0) \<rparr>"

text \<open>
  The loop of lines 82-106 over the entries of the current report (without
  \<^verbatim>\<open>__global\<close>). The state is the pair \<^verbatim>\<open>(changedPages, newPages)\<close>; \<^verbatim>\<open>push\<close> appends.
\<close>

fun page_loop ::
  "options \<Rightarrow> report \<Rightarrow> report \<Rightarrow> pagediff list \<times> pagediff list \<Rightarrow> pagediff list \<times> pagediff list"
where
  "page_loop opts [] baseBundle acc = acc"
| "page_loop opts ((pg, currentStats) # rest) baseBundle (changedPages, newPages) =
     (case map_of baseBundle pg of
        None \<Rightarrow>
          page_loop opts rest baseBundle (changedPages, newPages @ [new_page pg currentStats])
      | Some baseStats \<Rightarrow>
          if gzip currentStats \<noteq> gzip baseStats then
            if over_threshold opts (gzip currentStats - gzip baseStats)
            then page_loop opts rest baseBundle
                   (changedPages @ [changed_page pg currentStats baseStats], newPages)
            else page_loop opts rest baseBundle (changedPages, newPages)
          else page_loop opts rest baseBundle (changedPages, newPages))"

text \<open>\<^verbatim>\<open>delete bundle.__global\<close>.\<close>

definition delete_global :: "report \<Rightarrow> report" where
  "delete_global r = filter (\<lambda>(k, v). k \<noteq> ''__global'') r"

definition changedPages :: "options \<Rightarrow> report \<Rightarrow> report \<Rightarrow> pagediff list" where
  "changedPages opts currentBundle baseBundle =
     fst (page_loop opts (delete_global currentBundle) (delete_global baseBundle) ([], []))"

definition newPages :: "options \<Rightarrow> report \<Rightarrow> report \<Rightarrow> pagediff list" where
  "newPages opts currentBundle baseBundle =
     snd (page_loop opts (delete_global currentBundle) (delete_global baseBundle) ([], []))"

section \<open>JavaScript numbers and the strings printed from them\<close>

text \<open>
  Percentages are JavaScript numbers: a finite value, an infinity (a division by a zero
  size, an overflow) or \<^verbatim>\<open>NaN\<close> (arithmetic on \<^verbatim>\<open>undefined\<close>). A finite number is
  the real number that the IEEE 754 double stands for; every arithmetic operation rounds
  its exact result to a double (\<open>to_double\<close>). The sign of zero is not kept. Comparisons
  are exact on doubles, so they are the comparisons below.
\<close>

datatype jsnum = Fin real | PInf | NInf | NaN

fun js_lt :: "jsnum \<Rightarrow> jsnum \<Rightarrow> bool" where
  "js_lt NaN y = False"
| "js_lt x NaN = False"
| "js_lt (Fin a) (Fin b) = (a < b)"
| "js_lt (Fin a) PInf = True"
| "js_lt (Fin a) NInf = False"
| "js_lt PInf y = False"
| "js_lt NInf (Fin b) = True"
| "js_lt NInf PInf = True"
| "js_lt NInf NInf = False"

definition js_gt :: "jsnum \<Rightarrow> jsnum \<Rightarrow> bool" where
  "js_gt x y = js_lt y x"

definition js_ge :: "jsnum \<Rightarrow> jsnum \<Rightarrow> bool" where
  "js_ge x y = (x \<noteq> NaN \<and> y \<noteq> NaN \<and> \<not> js_lt x y)"

definition js_le :: "jsnum \<Rightarrow> jsnum \<Rightarrow> bool" where
  "js_le x y = (x \<noteq> NaN \<and> y \<noteq> NaN \<and> \<not> js_lt y x)"


fun js_neg :: "jsnum \<Rightarrow> jsnum" where
  "js_neg (Fin a) = Fin (- a)"
| "js_neg PInf = NInf"
| "js_neg NInf = PInf"
| "js_neg NaN = NaN"

text \<open>
  Rounding to binary64, to the nearest double and on a tie to the one with an even
  significand. \<open>binary_exponent x\<close> is the \<open>e\<close> with \<open>2^e \<le> |x| < 2^(e+1)\<close>; doubles
  around \<open>x\<close> are \<open>2^(e-52)\<close> apart, and \<open>2^(-1074)\<close> apart below \<open>2^(-1022)\<close>;
  \<open>double_magnitude x\<close> is the one nearest to \<open>|x|\<close>. A result of \<open>2^1024\<close> or more is an
  infinity.
\<close>

definition round_half_even :: "real \<Rightarrow> int" where
  "round_half_even q =
     (let f = \<lfloor>q\<rfloor>; r = q - of_int f in
      if r < 1 / 2 then f
      else if 1 / 2 < r then f + 1
      else if even f then f else f + 1)"

definition binary_exponent :: "real \<Rightarrow> int" where
  "binary_exponent x =
     (if 1 \<le> \<bar>x\<bar> then bitlen \<lfloor>\<bar>x\<bar>\<rfloor> - 1 else - bitlen (\<lceil>1 / \<bar>x\<bar>\<rceil> - 1))"

definition double_magnitude :: "real \<Rightarrow> real" where
  "double_magnitude x =
     (let e = max (binary_exponent x) (- 1022);
          ulp = 2 powi (e - 52)
      in of_int (round_half_even (\<bar>x\<bar> / ulp)) * ulp)"

definition to_double :: "real \<Rightarrow> jsnum" where
  "to_double x =
     (if x = 0 then Fin 0
      else
        let y = double_magnitude x
        in if 2 ^ 1024 \<le> y then (if 0 < x then PInf else NInf)
           else Fin (if 0 < x then y else - y))"

fun js_div :: "jsnum \<Rightarrow> jsnum \<Rightarrow> jsnum" where
  "js_div NaN y = NaN"
| "js_div x NaN = NaN"
| "js_div (Fin a) (Fin b) =
     (if b = 0 then (if a = 0 then NaN else if 0 < a then PInf else NInf)
      else to_double (a / b))"
| "js_div (Fin a) y = Fin 0"
| "js_div PInf (Fin b) = (if b < 0 then NInf else PInf)"
| "js_div NInf (Fin b) = (if b < 0 then PInf else NInf)"
| "js_div x y = NaN"

fun js_mul :: "jsnum \<Rightarrow> jsnum \<Rightarrow> jsnum" where
  "js_mul NaN y = NaN"
| "js_mul x NaN = NaN"
| "js_mul (Fin a) (Fin b) = to_double (a * b)"
| "js_mul (Fin a) y = (if a = 0 then NaN else if 0 < a then y else js_neg y)"
| "js_mul x (Fin b) = (if b = 0 then NaN else if 0 < b then x else js_neg x)"
| "js_mul x y = (if x = y then PInf else NInf)"

fun js_sub :: "jsnum \<Rightarrow> jsnum \<Rightarrow> jsnum" where
  "js_sub NaN y = NaN"
| "js_sub x NaN = NaN"
| "js_sub (Fin a) (Fin b) = to_double (a - b)"
| "js_sub (Fin a) y = js_neg y"
| "js_sub x (Fin b) = x"
| "js_sub x y = (if x = y then NaN else x)"

text \<open>\<^verbatim>\<open>ToNumber\<close> of an option that may be \<^verbatim>\<open>undefined\<close>.\<close>

definition opt_number :: "real option \<Rightarrow> jsnum" where
  "opt_number v = (case v of None \<Rightarrow> NaN | Some x \<Rightarrow> Fin x)"

text \<open>
  The string \<^verbatim>\<open>x.toFixed(2)\<close>, kept as what it spells: \<open>Decimal2 neg n\<close> is the sign,
  the digits of \<open>n div 100\<close>, a point and the two digits of \<open>n mod 100\<close>; \<open>Plain x\<close> is
  \<^verbatim>\<open>String(x)\<close>, which \<^verbatim>\<open>toFixed\<close> returns for a value that is not finite or is
  \<open>10^21\<close> or more. \<^verbatim>\<open>toFixed\<close> rounds the absolute value to the nearest hundredth and
  takes the larger one on a tie.
\<close>

datatype numstr = Decimal2 bool nat | Plain jsnum

fun toFixed2 :: "jsnum \<Rightarrow> numstr" where
  "toFixed2 (Fin x) =
     (if 10 ^ 21 \<le> \<bar>x\<bar> then Plain (Fin x)
      else Decimal2 (x < 0) (nat \<lfloor>\<bar>x\<bar> * 100 + 1 / 2\<rfloor>))"
| "toFixed2 x = Plain x"

text \<open>\<^verbatim>\<open>Number(s)\<close> for such a string: the double nearest to the decimal.\<close>

fun numstr_value :: "numstr \<Rightarrow> jsnum" where
  "numstr_value (Decimal2 neg n) = to_double ((if neg then - 1 else 1) * real n / 100)"
| "numstr_value (Plain x) = x"

text \<open>
  The values of \<^verbatim>\<open>budgetPercentage\<close>, \<^verbatim>\<open>previousBudgetPercentage\<close> and
  \<^verbatim>\<open>budgetChange\<close>: the number \<^verbatim>\<open>0\<close> or a \<^verbatim>\<open>toFixed\<close> string.
\<close>

datatype jsval = Num jsnum | Str numstr

fun truthy :: "jsval \<Rightarrow> bool" where
  "truthy (Num (Fin x)) = (x \<noteq> 0)"
| "truthy (Num NaN) = False"
| "truthy (Num x) = True"
| "truthy (Str s) = True"

fun to_number :: "jsval \<Rightarrow> jsnum" where
  "to_number (Num x) = x"
| "to_number (Str s) = numstr_value s"

section \<open>Library functions\<close>

text \<open>
  \<^verbatim>\<open>filesize\<close> and \<^verbatim>\<open>number-to-words\<close> are npm packages and the printing of a finite
  number is the runtime's; they are parameters. \<^verbatim>\<open>originalFilesize\<close> takes the byte
  count and the \<^verbatim>\<open>spacer\<close> option.
\<close>

record env =
  originalFilesize :: "real \<Rightarrow> string \<Rightarrow> string"
  toWords :: "nat \<Rightarrow> string"
  numberToString :: "real \<Rightarrow> string"

text \<open>Lines 14-19: the spacer is a non-breaking space (U+00A0, in UTF-8).\<close>

definition filesize :: "env \<Rightarrow> real \<Rightarrow> string" where
  "filesize E bytes = originalFilesize E bytes [CHR 0xC2, CHR 0xA0]"

fun number_text :: "env \<Rightarrow> jsnum \<Rightarrow> string" where
  "number_text E (Fin x) = numberToString E x"
| "number_text E PInf = ''Infinity''"
| "number_text E NInf = ''-Infinity''"
| "number_text E NaN = ''NaN''"

definition digit_char :: "nat \<Rightarrow> char" where
  "digit_char d = ''0123456789'' ! (d mod 10)"

function show_nat :: "nat \<Rightarrow> string" where
  "show_nat n = (if n < 10 then [digit_char n] else show_nat (n div 10) @ [digit_char (n mod 10)])"
  by pat_completeness auto
termination
  by (relation "measure id") auto

declare show_nat.simps [simp del]

fun numstr_text :: "env \<Rightarrow> numstr \<Rightarrow> string" where
  "numstr_text E (Decimal2 neg n) =
     (if neg then ''-'' else []) @ show_nat (n div 100) @ ''.'' @
     [digit_char (n mod 100 div 10), digit_char (n mod 10)]"
| "numstr_text E (Plain x) = number_text E x"

fun to_text :: "env \<Rightarrow> jsval \<Rightarrow> string" where
  "to_text E (Num x) = number_text E x"
| "to_text E (Str s) = numstr_text E s"

text \<open>
  Strings are UTF-8 byte sequences. \<^verbatim>\<open>String.prototype.trim\<close> removes white space and
  line terminators from both ends; these are their encodings.
\<close>

definition whitespace :: "string list" where
  "whitespace =
     [[CHR 0x09], [CHR 0x0A], [CHR 0x0B], [CHR 0x0C], [CHR 0x0D], [CHR 0x20],
      [CHR 0xC2, CHR 0xA0], [CHR 0xE1, CHR 0x9A, CHR 0x80],
      [CHR 0xE2, CHR 0x80, CHR 0x80], [CHR 0xE2, CHR 0x80, CHR 0x81],
      [CHR 0xE2, CHR 0x80, CHR 0x82], [CHR 0xE2, CHR 0x80, CHR 0x83],
      [CHR 0xE2, CHR 0x80, CHR 0x84], [CHR 0xE2, CHR 0x80, CHR 0x85],
      [CHR 0xE2, CHR 0x80, CHR 0x86], [CHR 0xE2, CHR 0x80, CHR 0x87],
      [CHR 0xE2, CHR 0x80, CHR 0x88], [CHR 0xE2, CHR 0x80, CHR 0x89],
      [CHR 0xE2, CHR 0x80, CHR 0x8A], [CHR 0xE2, CHR 0x80, CHR 0xA8],
      [CHR 0xE2, CHR 0x80, CHR 0xA9], [CHR 0xE2, CHR 0x80, CHR 0xAF],
      [CHR 0xE2, CHR 0x81, CHR 0x9F], [CHR 0xE3, CHR 0x80, CHR 0x80],
      [CHR 0xEF, CHR 0xBB, CHR 0xBF]]"

function trimStart :: "string \<Rightarrow> string" where
  "trimStart s =
     (case find (\<lambda>w. prefix w s) whitespace of
        None \<Rightarrow> s
      | Some w \<Rightarrow> if w = [] then s else trimStart (drop (length w) s))"
  by pat_completeness auto
termination
proof (relation "measure length")
  show "wf (measure length)" by simp
next
  fix s :: string and w :: string
  assume "find (\<lambda>w. prefix w s) whitespace = Some w" and "w \<noteq> []"
  then have "prefix w s" and "w \<noteq> []"
    by (auto simp: find_Some_iff)
  then have "length s \<ge> length w" and "0 < length w"
    by (auto simp: prefix_length_le)
  then show "(drop (length w) s, s) \<in> measure length"
    by (cases w) auto
qed

function trimEnd :: "string \<Rightarrow> string" where
  "trimEnd s =
     (case find (\<lambda>w. suffix w s) whitespace of
        None \<Rightarrow> s
      | Some w \<Rightarrow> if w = [] then s else trimEnd (take (length s - length w) s))"
  by pat_completeness auto
termination
proof (relation "measure length")
  show "wf (measure length)" by simp
next
  fix s :: string and w :: string
  assume "find (\<lambda>w. suffix w s) whitespace = Some w" and "w \<noteq> []"
  then have "suffix w s" and "w \<noteq> []"
    by (auto simp: find_Some_iff)
  then have "length s \<ge> length w" and "0 < length w"
    by (auto simp: suffix_length_le)
  then show "(take (length s - length w) s, s) \<in> measure length"
    by (cases w) auto
qed

declare trimStart.simps [simp del] trimEnd.simps [simp del]

definition trim :: "string \<Rightarrow> string" where
  "trim s = trimEnd (trimStart s)"

text \<open>
  \<^verbatim>\<open>titleCase\<close> (lines 344-348): every match of \<^verbatim>\<open>/\w\S*/g\<close> gets its first
  character in upper case and the rest in lower case. The flag says whether the scan is
  inside a match. Case is changed on ASCII letters only (\<^verbatim>\<open>toWords\<close> gives English words).
\<close>

definition is_word_char :: "char \<Rightarrow> bool" where
  "is_word_char c =
     ((CHR ''a'' \<le> c \<and> c \<le> CHR ''z'') \<or> (CHR ''A'' \<le> c \<and> c \<le> CHR ''Z'') \<or>
      (CHR ''0'' \<le> c \<and> c \<le> CHR ''9'') \<or> c = CHR ''_'')"

definition toUpperCase :: "char \<Rightarrow> char" where
  "toUpperCase c =
     (if CHR ''a'' \<le> c \<and> c \<le> CHR ''z'' then char_of (of_char c - (32::nat)) else c)"

definition toLowerCase :: "char \<Rightarrow> char" where
  "toLowerCase c =
     (if CHR ''A'' \<le> c \<and> c \<le> CHR ''Z'' then char_of (of_char c + (32::nat)) else c)"

fun titleCase_scan :: "bool \<Rightarrow> string \<Rightarrow> string" where
  "titleCase_scan inside [] = []"
| "titleCase_scan inside (c # cs) =
     (if inside then
        (if find (\<lambda>w. prefix w (c # cs)) whitespace \<noteq> None
         then c # titleCase_scan False cs
         else toLowerCase c # titleCase_scan True cs)
      else
        (if is_word_char c
         then toUpperCase c # titleCase_scan True cs
         else c # titleCase_scan False cs))"

definition titleCase :: "string \<Rightarrow> string" where
  "titleCase str = titleCase_scan False str"

section \<open>Rendering\<close>

definition yellow_circle :: string where
  "yellow_circle = [CHR 0xF0, CHR 0x9F, CHR 0x9F, CHR 0xA1]"

definition red_circle :: string where
  "red_circle = [CHR 0xF0, CHR 0x9F, CHR 0x94, CHR 0xB4]"

definition green_circle :: string where
  "green_circle = [CHR 0xF0, CHR 0x9F, CHR 0x9F, CHR 0xA2]"

text \<open>
  \<^verbatim>\<open>renderStatusIndicator\<close> (lines 330-342). \<^verbatim>\<open>BUDGET_PERCENT_INCREASE_RED\<close> is
  \<^verbatim>\<open>options.budgetPercentIncreaseRed\<close>; the argument has been converted to a number, as
  the comparisons do. The literal \<^verbatim>\<open>0.01\<close> is the double nearest to one hundredth.
\<close>

definition renderStatusIndicator :: "options \<Rightarrow> jsnum \<Rightarrow> string" where
  "renderStatusIndicator opts percentageChange =
     (let red = opt_number (budgetPercentIncreaseRed opts) in
      if js_gt percentageChange (Fin 0) \<and> js_lt percentageChange red
      then yellow_circle @ '' +''
      else if js_ge percentageChange red
      then red_circle @ '' +''
      else if js_lt percentageChange (to_double (1 / 100)) \<and>
              js_gt percentageChange (js_neg (to_double (1 / 100)))
      then []
      else green_circle @ '' '')"

definition int_number :: "int option \<Rightarrow> jsnum" where
  "int_number v = (case v of None \<Rightarrow> NaN | Some i \<Rightarrow> Fin (real_of_int i))"

text \<open>\<^verbatim>\<open>renderSize\<close> (lines 287-295).\<close>

definition renderSize :: "env \<Rightarrow> options \<Rightarrow> pagediff \<Rightarrow> bool \<Rightarrow> string" where
  "renderSize E opts d showBudgetDiff =
     (let gzd = gzipDiff d;
          percentChange = js_mul (js_div (int_number gzd) (Fin (real_of_int (gzip d)))) (Fin 100)
      in '' | `'' @ filesize E (real_of_int (gzip d)) @ ''`'' @
         (case gzd of
            None \<Rightarrow> []
          | Some g \<Rightarrow>
              if g \<noteq> 0 \<and> \<not> showBudgetDiff
              then '' _('' @ renderStatusIndicator opts percentChange @
                   filesize E (real_of_int g) @ '')_''
              else []))"

text \<open>\<^verbatim>\<open>renderFirstLoad\<close> (lines 279-282).\<close>

definition renderFirstLoad :: "env \<Rightarrow> stats option \<Rightarrow> int \<Rightarrow> string" where
  "renderFirstLoad E globalBundleCurrent firstLoadSize =
     (if globalBundleCurrent = None then []
      else '' | '' @ filesize E (real_of_int firstLoadSize))"

text \<open>\<^verbatim>\<open>renderBudgetPercentage\<close> (lines 299-321).\<close>

definition renderBudgetPercentage ::
  "env \<Rightarrow> options \<Rightarrow> bool \<Rightarrow> jsval \<Rightarrow> jsval \<Rightarrow> jsval \<Rightarrow> string"
where
  "renderBudgetPercentage E opts showBudget budgetPercentage previousBudgetPercentage budgetChange =
     (if \<not> showBudget then []
      else
        let budgetChangeText =
              '' _('' @ renderStatusIndicator opts (to_number budgetChange) @
              (if js_lt (to_number budgetChange) (to_double (1 / 100)) \<and>
                  js_gt (to_number budgetChange) (js_neg (to_double (1 / 100)))
               then ''+/- <0.01%''
               else to_text E budgetChange @ ''%'') @
              '')_''
        in '' | '' @ to_text E budgetPercentage @ ''%'' @
           (if truthy previousBudgetPercentage then budgetChangeText else []))"

text \<open>
  \<^verbatim>\<open>markdownTable(_data, globalBundleCurrent, globalBundleBase)\<close> is called with one,
  two or three arguments; \<open>table_globals\<close> is the list of the optional ones.
\<close>

datatype table_globals = NoGlobals | Current stats | CurrentAndBase stats stats

fun current_of :: "table_globals \<Rightarrow> stats option" where
  "current_of NoGlobals = None"
| "current_of (Current gc) = Some gc"
| "current_of (CurrentAndBase gc gb) = Some gc"

fun base_of :: "table_globals \<Rightarrow> stats option" where
  "base_of (CurrentAndBase gc gb) = Some gb"
| "base_of g = None"

text \<open>Truthiness of \<^verbatim>\<open>BUDGET\<close>.\<close>

definition budget_set :: "options \<Rightarrow> bool" where
  "budget_set opts = (case budget opts of None \<Rightarrow> False | Some b \<Rightarrow> b \<noteq> 0)"

definition showBudget :: "options \<Rightarrow> table_globals \<Rightarrow> bool" where
  "showBudget opts g = (current_of g \<noteq> None \<and> budget_set opts)"

definition showBudgetDiff :: "options \<Rightarrow> table_globals \<Rightarrow> bool" where
  "showBudgetDiff opts g = (budget_set opts \<and> base_of g \<noteq> None)"

text \<open>The values computed for a row (lines 242-258).\<close>

definition firstLoadSize :: "table_globals \<Rightarrow> pagediff \<Rightarrow> int" where
  "firstLoadSize g d =
     (case current_of g of None \<Rightarrow> 0 | Some gc \<Rightarrow> gzip d + gzip gc)"

definition budget_percent :: "options \<Rightarrow> int \<Rightarrow> numstr" where
  "budget_percent opts bytes =
     toFixed2 (js_mul (js_div (Fin (real_of_int bytes)) (opt_number (budget opts))) (Fin 100))"

definition budgetPercentage :: "options \<Rightarrow> table_globals \<Rightarrow> pagediff \<Rightarrow> jsval" where
  "budgetPercentage opts g d =
     (if showBudget opts g then Str (budget_percent opts (firstLoadSize g d)) else Num (Fin 0))"

definition previousBudgetPercentage :: "options \<Rightarrow> table_globals \<Rightarrow> pagediff \<Rightarrow> jsval" where
  "previousBudgetPercentage opts g d =
     (case g of
        CurrentAndBase gc gb \<Rightarrow>
          (case gzipDiff d of
             None \<Rightarrow> Num (Fin 0)
           | Some gd \<Rightarrow>
               if gd \<noteq> 0 then Str (budget_percent opts (gzip gc + gzip d + gd))
               else Num (Fin 0))
      | _ \<Rightarrow> Num (Fin 0))"

definition budgetChange :: "options \<Rightarrow> table_globals \<Rightarrow> pagediff \<Rightarrow> jsval" where
  "budgetChange opts g d =
     (if truthy (previousBudgetPercentage opts g d)
      then Str (toFixed2 (js_sub (to_number (previousBudgetPercentage opts g d))
                                 (to_number (budgetPercentage opts g d))))
      else Num (Fin 0))"

definition table_row :: "env \<Rightarrow> options \<Rightarrow> table_globals \<Rightarrow> pagediff \<Rightarrow> string" where
  "table_row E opts g d =
     ''| `'' @ page d @ ''`'' @
     renderSize E opts d (showBudgetDiff opts g) @
     renderFirstLoad E (current_of g) (firstLoadSize g d) @
     renderBudgetPercentage E opts (showBudget opts g) (budgetPercentage opts g d)
       (previousBudgetPercentage opts g d) (budgetChange opts g d) @
     '' |\<newline>''"

definition table_header :: "env \<Rightarrow> options \<Rightarrow> table_globals \<Rightarrow> string" where
  "table_header E opts g =
     ''Page | Size (compressed) | '' @
     (if current_of g \<noteq> None then ''First Load |'' else []) @
     (case budget opts of
        None \<Rightarrow> []
      | Some b \<Rightarrow> if showBudget opts g then '' % of Budget (`'' @ filesize E b @ ''`) |'' else []) @
     ''\<newline>|---|---|'' @
     (if current_of g \<noteq> None then ''---|'' else []) @
     (if showBudget opts g then ''---|'' else []) @
     ''\<newline>''"

text \<open>\<^verbatim>\<open>markdownTable\<close> (lines 226-274); \<open>rows\<close> is \<^verbatim>\<open>[].concat(_data)\<close>.\<close>

definition markdownTable :: "env \<Rightarrow> options \<Rightarrow> pagediff list \<Rightarrow> table_globals \<Rightarrow> string" where
  "markdownTable E opts rows g = table_header E opts g @ concat (map (table_row E opts g) rows)"

section \<open>The script\<close>

definition PACKAGE_NAME :: "options \<Rightarrow> string" where
  "PACKAGE_NAME opts = (case name opts of None \<Rightarrow> ''undefined'' | Some n \<Rightarrow> n)"

definition SHOW_DETAILS :: "options \<Rightarrow> bool" where
  "SHOW_DETAILS opts = (case showDetails opts of None \<Rightarrow> True | Some b \<Rightarrow> b)"

definition red_percent_text :: "env \<Rightarrow> options \<Rightarrow> string" where
  "red_percent_text E opts =
     (case budgetPercentIncreaseRed opts of
        None \<Rightarrow> ''undefined''
      | Some r \<Rightarrow> numberToString E r)"

text \<open>Lines 46-50.\<close>

definition output_start :: "options \<Rightarrow> string" where
  "output_start opts =
     ''## '' @ [CHR 0xF0, CHR 0x9F, CHR 0x93, CHR 0xA6] @
     '' Next.js Bundle Analysis for '' @ PACKAGE_NAME opts @ ''\<newline>\<newline>'' @
     ''This analysis was generated by the [Next.js Bundle Analysis action]'' @
     ''(https://github.com/hashicorp/nextjs-bundle-analysis). '' @
     [CHR 0xF0, CHR 0x9F, CHR 0xA4, CHR 0x96] @ ''\<newline>\<newline>''"

definition global_details :: string where
  "global_details =
     ''\<newline>'' @
     ''<details>\<newline>'' @
     ''<summary>Details</summary>\<newline>'' @
     ''<p>The <strong>global bundle</strong> is the javascript bundle that loads '' @
     ''alongside every page. It is in its own category because its impact is '' @
     ''much higher - an increase to its size means that every page on your website '' @
     ''loads slower, and a decrease means every page loads faster.</p>\<newline>'' @
     ''<p>Any third party scripts you have added directly to your app using the '' @
     ''<code>&lt;script&gt;</code> tag are not accounted for in this analysis</p>\<newline>'' @
     ''<p>If you want further insight into what is behind the changes, give <a '' @
     ''href='https://www.npmjs.com/package/@next/bundle-analyzer'>@next/bundle-analyzer</a> '' @
     ''a try!</p>\<newline>'' @
     ''</details>\<newline>'' @
     ''\<newline>''"

text \<open>Lines 110-132.\<close>

definition global_section :: "env \<Rightarrow> options \<Rightarrow> pagediff \<Rightarrow> string" where
  "global_section E opts g =
     ''### '' @
     (if increase g = Some True
      then [CHR 0xE2, CHR 0x9A, CHR 0xA0, CHR 0xEF, CHR 0xB8, CHR 0x8F]
      else [CHR 0xF0, CHR 0x9F, CHR 0x8E, CHR 0x89]) @
     ''  Global Bundle Size '' @
     (if increase g = Some True then ''Increased'' else ''Decreased'') @
     ''\<newline>  \<newline>'' @
     markdownTable E opts [g] NoGlobals @
     (if SHOW_DETAILS opts then global_details else [])"

text \<open>Lines 135-151.\<close>

definition new_section :: "env \<Rightarrow> options \<Rightarrow> pagediff list \<Rightarrow> stats \<Rightarrow> string" where
  "new_section E opts new globalBundleCurrent =
     (let plural = (if length new > 1 then ''s'' else []) in
      ''### New Page'' @ plural @ '' Added\<newline>  \<newline>'' @
      ''The following page'' @ plural @ '' '' @
      (if plural = ''s'' then ''were'' else ''was'') @
      '' added to the bundle from the code in this PR:\<newline>\<newline>'' @
      markdownTable E opts new (Current globalBundleCurrent) @ ''\<newline>'')"

definition changed_details_intro :: string where
  "changed_details_intro =
     ''\<newline>'' @
     ''<details>\<newline>'' @
     ''<summary>Details</summary>\<newline>'' @
     ''<p>Only the gzipped size is provided here based on <a '' @
     ''href='https://twitter.com/slightlylate/status/1412851269211811845'>an '' @
     ''expert tip</a>.</p>\<newline>'' @
     ''<p><strong>First Load</strong> is the size of the global bundle plus the '' @
     ''bundle for the individual page. If a user were to show up to your website '' @
     ''and land on a given page, the first load size represents the amount of '' @
     ''javascript that user would need to download. If <code>next/link</code> '' @
     ''is used, subsequent page loads would only need to download that page's '' @
     ''bundle (the number in the '' @ [CHR 0x22] @ ''Size'' @ [CHR 0x22] @
     '' column), since the global bundle has already been downloaded.</p>\<newline>'' @
     ''<p>Any third party scripts you have added directly to your app using the '' @
     ''<code>&lt;script&gt;</code> tag are not accounted for in this analysis</p>\<newline>''"

definition budget_details :: "env \<Rightarrow> options \<Rightarrow> string" where
  "budget_details E opts =
     ''<p>The '' @ [CHR 0x22] @ ''Budget %'' @ [CHR 0x22] @
     '' column shows what percentage of your performance budget the <strong>First '' @
     ''Load</strong> total takes up. For example, if your budget was 100kb, and '' @
     ''a given page's first load size was 10kb, it would be 10% of your budget. '' @
     ''You can also see how much this has increased or decreased compared to '' @
     ''the base branch of your PR. If this percentage has increased by '' @
     red_percent_text E opts @
     ''% or more, there will be a red status indicator applied, indicating that '' @
     ''special attention should be given to this. If you see '' @
     [CHR 0x22] @ ''+/- <0.01%'' @ [CHR 0x22] @
     '' it means that there was a change in bundle size, but it is a trivial '' @
     ''enough amount that it can be ignored.</p>''"

definition size_details :: "env \<Rightarrow> options \<Rightarrow> string" where
  "size_details E opts =
     ''<p>Next to the size is how much the size has increased or decreased compared '' @
     ''with the base branch of this PR. If this percentage has increased by '' @
     red_percent_text E opts @
     ''% or more, there will be a red status indicator applied, indicating that '' @
     ''special attention should be given to this.''"

text \<open>Lines 155-186.\<close>

definition changed_section ::
  "env \<Rightarrow> options \<Rightarrow> pagediff list \<Rightarrow> stats \<Rightarrow> stats \<Rightarrow> string"
where
  "changed_section E opts changed globalBundleCurrent globalBundleBase =
     (let plural = (if length changed > 1 then ''s'' else []) in
      ''### '' @ titleCase (toWords E (length changed)) @
      '' Page'' @ plural @ '' Changed Size\<newline>  \<newline>'' @
      ''The following page'' @ plural @
      '' changed size from the code in this PR compared to its base branch:'' @
      ''\<newline>\<newline>'' @
      markdownTable E opts changed (CurrentAndBase globalBundleCurrent globalBundleBase) @
      (if SHOW_DETAILS opts
       then changed_details_intro @
            (if budget_set opts then budget_details E opts else size_details E opts) @
            ''\<newline></details>\<newline>''
       else []))"

definition no_changes_text :: string where
  "no_changes_text =
     ''This PR introduced no changes to the JavaScript bundle! '' @
     [CHR 0xF0, CHR 0x9F, CHR 0x99, CHR 0x8C]"

definition marker_tag :: "options \<Rightarrow> string" where
  "marker_tag opts = ''<!-- __NEXTJS_BUNDLE_'' @ PACKAGE_NAME opts @ '' -->''"

definition hasNoChanges :: "options \<Rightarrow> report \<Rightarrow> report \<Rightarrow> stats \<Rightarrow> stats \<Rightarrow> bool" where
  "hasNoChanges opts currentBundle baseBundle globalBundleCurrent globalBundleBase =
     (newPages opts currentBundle baseBundle = [] \<and>
      changedPages opts currentBundle baseBundle = [] \<and>
      globalBundleChanges opts globalBundleCurrent globalBundleBase = None)"

text \<open>The value of \<^verbatim>\<open>output\<close> at line 203.\<close>

definition script_output ::
  "env \<Rightarrow> options \<Rightarrow> report \<Rightarrow> report \<Rightarrow> stats \<Rightarrow> stats \<Rightarrow> string"
where
  "script_output E opts currentBundle baseBundle globalBundleCurrent globalBundleBase =
     (let changed = changedPages opts currentBundle baseBundle;
          new = newPages opts currentBundle baseBundle;
          noChanges = hasNoChanges opts currentBundle baseBundle globalBundleCurrent globalBundleBase;
          output =
            output_start opts @
            (case globalBundleChanges opts globalBundleCurrent globalBundleBase of
               None \<Rightarrow> []
             | Some g \<Rightarrow> global_section E opts g) @
            (if new \<noteq> [] then new_section E opts new globalBundleCurrent else []) @
            (if changed \<noteq> []
             then changed_section E opts changed globalBundleCurrent globalBundleBase
             else []) @
            (if noChanges then no_changes_text else []) @
            marker_tag opts
      in if noChanges \<and> skipCommentIfEmpty opts then [] else output)"

text \<open>
  Loading a report with \<^verbatim>\<open>require\<close> throws when the file is missing or is not JSON.
  Reading \<^verbatim>\<open>.gzip\<close> of a \<^verbatim>\<open>__global\<close> entry that is absent throws a \<^verbatim>\<open>TypeError\<close>.
  An exception is not caught: the process ends with a non-zero status before anything is
  logged or written.
\<close>

datatype error = LoadError | TypeError

datatype 'a json_file = Missing | Malformed | Parsed 'a

fun require_json :: "'a json_file \<Rightarrow> error + 'a" where
  "require_json Missing = Inl LoadError"
| "require_json Malformed = Inl LoadError"
| "require_json (Parsed v) = Inr v"

text \<open>
  What the run leaves: the text given to \<^verbatim>\<open>console.log\<close> and the content of the file
  \<^verbatim>\<open>analyze/__bundle_analysis_comment.txt\<close>. The directories of the three files come from
  \<^verbatim>\<open>getBuildOutputDirectory\<close> and are not part of the model.
\<close>

record result =
  logged :: string
  written :: string

definition compare ::
  "env \<Rightarrow> options \<Rightarrow> report json_file \<Rightarrow> report json_file \<Rightarrow> error + result"
where
  "compare E opts currentFile baseFile =
     (case require_json currentFile of
        Inl e \<Rightarrow> Inl e
      | Inr currentBundle \<Rightarrow>
          (case require_json baseFile of
             Inl e \<Rightarrow> Inl e
           | Inr baseBundle \<Rightarrow>
               (case map_of currentBundle ''__global'' of
                  None \<Rightarrow> Inl TypeError
                | Some globalBundleCurrent \<Rightarrow>
                    (case map_of baseBundle ''__global'' of
                       None \<Rightarrow> Inl TypeError
                     | Some globalBundleBase \<Rightarrow>
                         (let output = script_output E opts currentBundle baseBundle
                                         globalBundleCurrent globalBundleBase
                          in Inr \<lparr> logged = output, written = trim output \<rparr>)))))"

section \<open>The figures as the specification words them\<close>

text \<open>
  Written from the specification, to be compared with \<open>previousBudgetPercentage\<close> and
  \<open>budgetChange\<close>: the prior first load is the base global bundle plus the page on the
  base branch, the prior budget percentage is that over the budget, times 100, to two
  decimals, and the delta is the current percentage minus the prior one.
\<close>

definition spec_previousBudgetPercentage :: "options \<Rightarrow> stats \<Rightarrow> stats \<Rightarrow> numstr" where
  "spec_previousBudgetPercentage opts globalBundleBase baseStats =
     budget_percent opts (gzip globalBundleBase + gzip baseStats)"

definition spec_budgetChange :: "options \<Rightarrow> stats \<Rightarrow> stats \<Rightarrow> stats \<Rightarrow> stats \<Rightarrow> jsnum" where
  "spec_budgetChange opts globalBundleCurrent globalBundleBase currentStats baseStats =
     js_sub (numstr_value (budget_percent opts (gzip globalBundleCurrent + gzip currentStats)))
            (numstr_value (spec_previousBudgetPercentage opts globalBundleBase baseStats))"

text \<open>The comment for a run without changes: heading, sentinel sentence, marker tag.\<close>

definition no_changes_output :: "options \<Rightarrow> string" where
  "no_changes_output opts = output_start opts @ no_changes_text @ marker_tag opts"

section \<open>Sample runs\<close>

definition sample_env :: env where
  "sample_env =
     \<lparr> originalFilesize = (\<lambda>bytes spacer. ''n'' @ spacer @ ''B''),
       toWords = (\<lambda>n. ''two''),
       numberToString = (\<lambda>x. ''20'') \<rparr>"

definition sample_options :: options where
  "sample_options =
     \<lparr> budget = Some 400, budgetPercentIncreaseRed = Some 20, showDetails = Some False,
       name = Some ''app'', skipCommentIfEmpty = False, minimumChangeThreshold = None \<rparr>"

definition skip_options :: options where
  "skip_options =
     \<lparr> budget = Some 400, budgetPercentIncreaseRed = Some 20, showDetails = Some False,
       name = Some ''app'', skipCommentIfEmpty = True, minimumChangeThreshold = None \<rparr>"


definition sample_current :: report where
  "sample_current =
     [(''/'', \<lparr> raw = 200, gzip = 100 \<rparr>),
      (''/same'', \<lparr> raw = 31, gzip = 10 \<rparr>),
      (''/shrunk'', \<lparr> raw = 8, gzip = 5 \<rparr>),
      (''/new'', \<lparr> raw = 2, gzip = 1 \<rparr>),
      (''__global'', \<lparr> raw = 200, gzip = 100 \<rparr>)]"

definition sample_base :: report where
  "sample_base =
     [(''/'', \<lparr> raw = 100, gzip = 50 \<rparr>),
      (''/same'', \<lparr> raw = 30, gzip = 10 \<rparr>),
      (''/shrunk'', \<lparr> raw = 20, gzip = 10 \<rparr>),
      (''/old'', \<lparr> raw = 40, gzip = 20 \<rparr>),
      (''__global'', \<lparr> raw = 120, gzip = 60 \<rparr>)]"




text \<open>Two reports with the same page and a global bundle that grew by five bytes.\<close>

definition quiet_current :: report where
  "quiet_current =
     [(''/'', \<lparr> raw = 10, gzip = 5 \<rparr>), (''__global'', \<lparr> raw = 30, gzip = 20 \<rparr>)]"

definition quiet_base :: report where
  "quiet_base =
     [(''/'', \<lparr> raw = 10, gzip = 5 \<rparr>), (''__global'', \<lparr> raw = 30, gzip = 15 \<rparr>)]"

section \<open>Properties of the classification\<close>

lemma over_threshold_iff:
  "over_threshold opts d =
     (minimumChangeThreshold opts = None \<or>
      (\<exists>t. minimumChangeThreshold opts = Some t \<and> real_of_int \<bar>d\<bar> > t))"
  by (simp add: over_threshold_def split: option.splits)

lemma set_delete_global:
  "((pg, s) \<in> set (delete_global r)) = ((pg, s) \<in> set r \<and> pg \<noteq> ''__global'')"
  by (auto simp: delete_global_def)

lemma map_of_delete_global:
  "map_of (delete_global r) pg = (if pg = ''__global'' then None else map_of r pg)"
  unfolding delete_global_def by (induction r) auto

lemma wf_delete_global: "wf_report r \<Longrightarrow> wf_report (delete_global r)"
  by (simp add: wf_report_def delete_global_def distinct_map_filter)

lemma wf_report_map_of:
  "wf_report r \<Longrightarrow> (pg, s) \<in> set r \<Longrightarrow> map_of r pg = Some s"
  by (simp add: wf_report_def)

lemma page_changed_page [simp]: "page (changed_page pg s b) = pg"
  by (simp add: changed_page_def)

lemma page_new_page [simp]: "page (new_page pg s) = pg"
  by (simp add: new_page_def)

lemma page_loop_changed_mem:
  "d \<in> set (fst (page_loop opts cur base (c, n))) \<Longrightarrow>
     d \<in> set c \<or>
     (\<exists>pg s b. (pg, s) \<in> set cur \<and> map_of base pg = Some b \<and> gzip s \<noteq> gzip b \<and>
        over_threshold opts (gzip s - gzip b) \<and> d = changed_page pg s b)"
proof (induction cur arbitrary: c n)
  case Nil
  then show ?case by simp
next
  case (Cons e cur)
  obtain pg s where e: "e = (pg, s)" by (cases e)
  show ?case
  proof (cases "map_of base pg")
    case None
    with Cons.prems e have "d \<in> set (fst (page_loop opts cur base (c, n @ [new_page pg s])))"
      by simp
    from Cons.IH [OF this] show ?thesis by auto
  next
    case (Some b)
    show ?thesis
    proof (cases "gzip s \<noteq> gzip b \<and> over_threshold opts (gzip s - gzip b)")
      case True
      with Cons.prems e Some
      have "d \<in> set (fst (page_loop opts cur base (c @ [changed_page pg s b], n)))"
        by simp
      from Cons.IH [OF this] show ?thesis
        using e Some True by auto
    next
      case False
      with Cons.prems e Some have "d \<in> set (fst (page_loop opts cur base (c, n)))"
        by (auto split: if_splits)
      from Cons.IH [OF this] show ?thesis by auto
    qed
  qed
qed

lemma page_loop_new_mem:
  "d \<in> set (snd (page_loop opts cur base (c, n))) \<Longrightarrow>
     d \<in> set n \<or>
     (\<exists>pg s. (pg, s) \<in> set cur \<and> map_of base pg = None \<and> d = new_page pg s)"
proof (induction cur arbitrary: c n)
  case Nil
  then show ?case by simp
next
  case (Cons e cur)
  obtain pg s where e: "e = (pg, s)" by (cases e)
  show ?case
  proof (cases "map_of base pg")
    case None
    with Cons.prems e have "d \<in> set (snd (page_loop opts cur base (c, n @ [new_page pg s])))"
      by simp
    from Cons.IH [OF this] show ?thesis using e None by auto
  next
    case (Some b)
    show ?thesis
    proof (cases "gzip s \<noteq> gzip b \<and> over_threshold opts (gzip s - gzip b)")
      case True
      with Cons.prems e Some
      have "d \<in> set (snd (page_loop opts cur base (c @ [changed_page pg s b], n)))"
        by simp
      from Cons.IH [OF this] show ?thesis by auto
    next
      case False
      with Cons.prems e Some have "d \<in> set (snd (page_loop opts cur base (c, n)))"
        by (auto split: if_splits)
      from Cons.IH [OF this] show ?thesis by auto
    qed
  qed
qed

lemma changedPages_mem:
  assumes "d \<in> set (changedPages opts currentBundle baseBundle)"
  shows "\<exists>pg s b. (pg, s) \<in> set currentBundle \<and> pg \<noteq> ''__global'' \<and>
           map_of baseBundle pg = Some b \<and> gzip s \<noteq> gzip b \<and>
           over_threshold opts (gzip s - gzip b) \<and> d = changed_page pg s b"
  using page_loop_changed_mem [of d opts "delete_global currentBundle" "delete_global baseBundle" "[]" "[]"]
    assms
  by (auto simp: changedPages_def set_delete_global map_of_delete_global split: if_splits)

lemma newPages_mem:
  assumes "d \<in> set (newPages opts currentBundle baseBundle)"
  shows "\<exists>pg s. (pg, s) \<in> set currentBundle \<and> pg \<noteq> ''__global'' \<and>
           map_of baseBundle pg = None \<and> d = new_page pg s"
  using page_loop_new_mem [of d opts "delete_global currentBundle" "delete_global baseBundle" "[]" "[]"]
    assms
  by (auto simp: newPages_def set_delete_global map_of_delete_global split: if_splits)

lemma page_loop_unchanged:
  "(\<forall>(pg, s) \<in> set cur. \<exists>b. map_of base pg = Some b \<and>
       (gzip s = gzip b \<or> \<not> over_threshold opts (gzip s - gzip b)))
   \<Longrightarrow> page_loop opts cur base acc = acc"
proof (induction cur arbitrary: acc)
  case Nil
  then show ?case by simp
next
  case (Cons e cur)
  obtain pg s where e: "e = (pg, s)" by (cases e)
  obtain c n where acc: "acc = (c, n)" by (cases acc)
  from Cons.prems e obtain b where b: "map_of base pg = Some b"
    and same: "gzip s = gzip b \<or> \<not> over_threshold opts (gzip s - gzip b)"
    by auto
  have rest: "\<forall>(pg, s) \<in> set cur. \<exists>b. map_of base pg = Some b \<and>
       (gzip s = gzip b \<or> \<not> over_threshold opts (gzip s - gzip b))"
    using Cons.prems by simp
  have "page_loop opts (e # cur) base acc = page_loop opts cur base (c, n)"
    using e acc b same by auto
  also have "\<dots> = (c, n)"
    using Cons.IH [OF rest] .
  finally show ?case using acc by simp
qed

lemma page_loop_base_cong:
  "(\<forall>pg \<in> fst ` set cur. map_of base1 pg = map_of base2 pg)
   \<Longrightarrow> page_loop opts cur base1 acc = page_loop opts cur base2 acc"
proof (induction cur arbitrary: acc)
  case Nil
  then show ?case by simp
next
  case (Cons e cur)
  obtain pg s where e: "e = (pg, s)" by (cases e)
  obtain c n where acc: "acc = (c, n)" by (cases acc)
  have eq: "map_of base1 pg = map_of base2 pg"
    using Cons.prems e by simp
  have rest: "\<forall>pg \<in> fst ` set cur. map_of base1 pg = map_of base2 pg"
    using Cons.prems by simp
  show ?case
    unfolding e acc
    by (simp add: eq Cons.IH [OF rest] split: option.splits)
qed

lemma map_of_filter_other:
  "q \<noteq> pg \<Longrightarrow> map_of (filter (\<lambda>(k, v). k \<noteq> pg) r) q = map_of r q"
  by (induction r) auto

lemma delete_global_filter:
  "delete_global (filter (\<lambda>(k, v). k \<noteq> pg) r) = filter (\<lambda>(k, v). k \<noteq> pg) (delete_global r)"
  by (induction r) (auto simp: delete_global_def)

lemma page_loop_drop_skipped:
  "(\<forall>(k, v) \<in> set cur. k = pg \<longrightarrow> (\<exists>b. map_of base k = Some b \<and> gzip v = gzip b))
   \<Longrightarrow> page_loop opts (filter (\<lambda>(k, v). k \<noteq> pg) cur) base acc = page_loop opts cur base acc"
proof (induction cur arbitrary: acc)
  case Nil
  then show ?case by simp
next
  case (Cons e cur)
  obtain k v where e: "e = (k, v)" by (cases e)
  obtain c n where acc: "acc = (c, n)" by (cases acc)
  have rest: "\<forall>(k, v) \<in> set cur. k = pg \<longrightarrow> (\<exists>b. map_of base k = Some b \<and> gzip v = gzip b)"
    using Cons.prems by simp
  show ?case
  proof (cases "k = pg")
    case True
    then obtain b where "map_of base k = Some b" and "gzip v = gzip b"
      using Cons.prems e by auto
    then have "page_loop opts (e # cur) base acc = page_loop opts cur base acc"
      by (simp add: e acc)
    then show ?thesis
      using True e Cons.IH [OF rest] by simp
  next
    case False
    then show ?thesis
      unfolding e acc
      by (simp add: Cons.IH [OF rest] split: option.splits)
  qed
qed

section \<open>Properties of the rounding\<close>

lemmas double_eval =
  to_double_def double_magnitude_def binary_exponent_def round_half_even_def Let_def
  compute_bitlen power_int_minus

lemma to_double_not_NaN: "to_double x \<noteq> NaN"
  by (simp add: to_double_def Let_def)



lemma round_half_even_upper: "real_of_int (round_half_even q) \<le> q + 1 / 2"
  unfolding round_half_even_def Let_def by (auto; linarith)


lemma round_half_even_nonneg: "0 \<le> q \<Longrightarrow> 0 \<le> round_half_even q"
  unfolding round_half_even_def Let_def by auto

lemma round_half_even_small: "0 \<le> q \<Longrightarrow> q < 1 / 2 \<Longrightarrow> round_half_even q = 0"
proof -
  assume a: "0 \<le> q" "q < 1 / 2"
  then have f: "\<lfloor>q\<rfloor> = 0" by linarith
  then show ?thesis using a by (simp add: round_half_even_def Let_def)
qed

lemma round_half_even_double: "0 \<le> q \<Longrightarrow> real_of_int (round_half_even q) \<le> 2 * q"
proof (cases "q < 1 / 2")
  case True
  assume "0 \<le> q"
  with True show ?thesis by (simp add: round_half_even_small)
next
  case False
  then show ?thesis using round_half_even_upper [of q] by linarith
qed

lemma double_magnitude_bounds:
  "0 \<le> double_magnitude x \<and> double_magnitude x \<le> 2 * \<bar>x\<bar>"
proof -
  define ulp :: real where "ulp = 2 powi (max (binary_exponent x) (- 1022) - 52)"
  define m where "m = real_of_int (round_half_even (\<bar>x\<bar> / ulp))"
  have ulp: "0 < ulp" by (simp add: ulp_def)
  have q: "0 \<le> \<bar>x\<bar> / ulp" using ulp by simp
  have y: "double_magnitude x = m * ulp"
    by (simp add: double_magnitude_def Let_def ulp_def m_def)
  have m0: "0 \<le> m" unfolding m_def using round_half_even_nonneg [OF q] by simp
  have m2: "m \<le> 2 * (\<bar>x\<bar> / ulp)" unfolding m_def by (rule round_half_even_double [OF q])
  have lower: "0 \<le> double_magnitude x" using y m0 ulp by simp
  have "m * ulp \<le> 2 * (\<bar>x\<bar> / ulp) * ulp"
    using mult_right_mono [OF m2, of ulp] ulp by simp
  also have "\<dots> = 2 * \<bar>x\<bar>" using ulp by simp
  finally have "double_magnitude x \<le> 2 * \<bar>x\<bar>" using y by simp
  with lower show ?thesis by simp
qed

lemma to_double_bound:
  assumes "\<bar>x\<bar> < 2 ^ 1023"
  shows "\<exists>y. to_double x = Fin y \<and> \<bar>y\<bar> \<le> 2 * \<bar>x\<bar>"
proof (cases "x = 0")
  case True
  then show ?thesis by (simp add: to_double_def)
next
  case False
  have "2 * \<bar>x\<bar> < 2 * 2 ^ 1023" using assms by simp
  then have small: "\<not> (2::real) ^ 1024 \<le> double_magnitude x"
    using double_magnitude_bounds [of x] by simp
  have "to_double x = Fin (if 0 < x then double_magnitude x else - double_magnitude x)"
    using False small by (simp add: to_double_def Let_def)
  then show ?thesis using double_magnitude_bounds [of x] by auto
qed









section \<open>Properties of the rendering\<close>


lemma trimStart_hash: "trimStart (CHR ''#'' # cs) = CHR ''#'' # cs"
  by (simp add: trimStart.simps whitespace_def)

lemma trimEnd_gt: "trimEnd (xs @ ''>'') = xs @ ''>''"
  by (simp add: trimEnd.simps whitespace_def suffix_to_prefix)

lemma trim_Nil: "trim [] = []"
  by (simp add: trim_def trimStart.simps trimEnd.simps whitespace_def)

lemma trim_hash_gt: "trim (CHR ''#'' # xs @ ''>'') = CHR ''#'' # xs @ ''>''"
  using trimEnd_gt [of "CHR ''#'' # xs"] by (simp add: trim_def trimStart_hash)

lemma output_start_hash: "\<exists>ys. output_start opts = CHR ''#'' # ys"
  by (simp add: output_start_def)

lemma marker_tag_gt: "\<exists>ys. marker_tag opts = ys @ ''>''"
proof -
  have "marker_tag opts = (''<!-- __NEXTJS_BUNDLE_'' @ PACKAGE_NAME opts @ '' --'') @ ''>''"
    by (simp add: marker_tag_def)
  then show ?thesis by blast
qed

lemma trim_framed: "trim (output_start opts @ X @ marker_tag opts) = output_start opts @ X @ marker_tag opts"
proof -
  obtain ys where ys: "output_start opts = CHR ''#'' # ys" using output_start_hash by blast
  obtain zs where zs: "marker_tag opts = zs @ ''>''" using marker_tag_gt by blast
  have "trim (CHR ''#'' # (ys @ X @ zs) @ ''>'') = CHR ''#'' # (ys @ X @ zs) @ ''>''"
    by (rule trim_hash_gt)
  then show ?thesis by (simp add: ys zs)
qed

lemma script_output_shape:
  assumes "\<not> (hasNoChanges opts cur base gc gb \<and> skipCommentIfEmpty opts)"
  shows "\<exists>X. script_output E opts cur base gc gb = output_start opts @ X @ marker_tag opts"
  using assms by (auto simp: script_output_def Let_def)

lemma compare_Parsed:
  assumes "map_of currentBundle ''__global'' = Some gc"
    and "map_of baseBundle ''__global'' = Some gb"
  shows "compare E opts (Parsed currentBundle) (Parsed baseBundle) =
           Inr \<lparr> logged = script_output E opts currentBundle baseBundle gc gb,
                 written = trim (script_output E opts currentBundle baseBundle gc gb) \<rparr>"
  using assms by (simp add: compare_def Let_def)

text \<open>
  The numbers given to \<^verbatim>\<open>renderStatusIndicator\<close> are never \<^verbatim>\<open>NaN\<close>: \<^verbatim>\<open>renderSize\<close>
  calls it for a nonzero \<^verbatim>\<open>gzipDiff\<close> only, and \<^verbatim>\<open>renderBudgetPercentage\<close> for a
  budget of one byte or more and a first load below \<open>2^53\<close> bytes (a smaller budget can
  make the percentages overflow, and the difference of two infinities is \<^verbatim>\<open>NaN\<close>).
\<close>

lemma js_div_not_NaN: "b \<noteq> 0 \<Longrightarrow> js_div (Fin a) (Fin b) \<noteq> NaN"
  by (simp add: to_double_not_NaN)

lemma js_mul_100_not_NaN: "x \<noteq> NaN \<Longrightarrow> js_mul x (Fin 100) \<noteq> NaN"
  by (cases x) (simp_all add: to_double_not_NaN)

lemma percentChange_not_NaN:
  "g \<noteq> 0 \<Longrightarrow> js_mul (js_div (int_number (Some g)) (Fin (real_of_int z))) (Fin 100) \<noteq> NaN"
  by (rule js_mul_100_not_NaN) (simp add: int_number_def to_double_not_NaN)

lemma numstr_value_toFixed2_not_NaN: "v \<noteq> NaN \<Longrightarrow> numstr_value (toFixed2 v) \<noteq> NaN"
  by (cases v) (simp_all add: to_double_not_NaN)

lemma budget_percent_not_NaN:
  assumes "budget_set opts"
  shows "numstr_value (budget_percent opts bytes) \<noteq> NaN"
proof -
  from assms obtain b where "budget opts = Some b" and "b \<noteq> 0"
    by (auto simp: budget_set_def split: option.splits)
  then have "budget_percent opts bytes =
      toFixed2 (js_mul (js_div (Fin (real_of_int bytes)) (Fin b)) (Fin 100))"
    by (simp add: budget_percent_def opt_number_def del: toFixed2.simps js_div.simps js_mul.simps)
  moreover have "js_mul (js_div (Fin (real_of_int bytes)) (Fin b)) (Fin 100) \<noteq> NaN"
    using \<open>b \<noteq> 0\<close> by (intro js_mul_100_not_NaN js_div_not_NaN)
  ultimately show ?thesis
    using numstr_value_toFixed2_not_NaN by simp
qed

lemma toFixed2_value_finite:
  assumes "\<bar>y\<bar> < 10 ^ 21"
  shows "\<exists>v. numstr_value (toFixed2 (Fin y)) = Fin v"
proof -
  define n where "n = nat \<lfloor>\<bar>y\<bar> * 100 + 1 / 2\<rfloor>"
  define x where "x = (if y < 0 then - 1 else 1) * real n / 100"
  have fx: "numstr_value (toFixed2 (Fin y)) = to_double x"
    using assms by (simp add: n_def x_def)
  have "real n \<le> \<bar>y\<bar> * 100 + 1 / 2"
    unfolding n_def by simp
  then have "real n / 100 \<le> \<bar>y\<bar> + 1 / 200" by simp
  moreover have "\<bar>x\<bar> = real n / 100" by (simp add: x_def)
  ultimately have "\<bar>x\<bar> < 10 ^ 21 + 1" using assms by linarith
  also have "\<dots> < (2::real) ^ 1023" by simp
  finally obtain v where "to_double x = Fin v"
    using to_double_bound by blast
  with fx show ?thesis by simp
qed

lemma budget_percent_finite:
  assumes "budget opts = Some b" and "1 \<le> \<bar>b\<bar>" and "\<bar>bytes\<bar> \<le> 2 ^ 53"
  shows "\<exists>v. numstr_value (budget_percent opts bytes) = Fin v"
proof -
  have b0: "b \<noteq> 0" using assms(2) by auto
  define x1 where "x1 = real_of_int bytes / b"
  have "\<bar>real_of_int bytes\<bar> \<le> 2 ^ 53"
    using assms(3) by (metis of_int_abs of_int_le_iff of_int_numeral of_int_power)
  then have "\<bar>x1\<bar> \<le> 2 ^ 53"
    unfolding x1_def using assms(2) by (simp add: divide_le_eq)
  then have x1: "\<bar>x1\<bar> \<le> 2 ^ 53" and "\<bar>x1\<bar> < 2 ^ 1023" by simp_all
  then obtain y1 where y1: "to_double x1 = Fin y1" and b1: "\<bar>y1\<bar> \<le> 2 * \<bar>x1\<bar>"
    using to_double_bound by blast
  have "\<bar>y1 * 100\<bar> \<le> 200 * 2 ^ 53" using b1 x1 by (simp add: abs_mult)
  then have x2: "\<bar>y1 * 100\<bar> \<le> 200 * 2 ^ 53" and "\<bar>y1 * 100\<bar> < 2 ^ 1023" by simp_all
  then obtain y2 where y2: "to_double (y1 * 100) = Fin y2" and b2: "\<bar>y2\<bar> \<le> 2 * \<bar>y1 * 100\<bar>"
    using to_double_bound by blast
  have "\<bar>y2\<bar> < 10 ^ 21" using b2 x2 by simp
  then obtain v where "numstr_value (toFixed2 (Fin y2)) = Fin v"
    using toFixed2_value_finite by blast
  moreover have "budget_percent opts bytes = toFixed2 (Fin y2)"
    using assms(1) b0 y1 y2
    by (simp add: budget_percent_def opt_number_def x1_def del: toFixed2.simps)
  ultimately show ?thesis by simp
qed

lemma budgetChange_not_NaN:
  assumes "budget opts = Some b" and "1 \<le> \<bar>b\<bar>" and "\<bar>firstLoadSize g d\<bar> \<le> 2 ^ 53"
  shows "to_number (budgetChange opts g d) \<noteq> NaN"
proof (cases "truthy (previousBudgetPercentage opts g d)")
  case False
  then show ?thesis by (simp add: budgetChange_def)
next
  case True
  have set: "budget_set opts" using assms(1,2) by (auto simp: budget_set_def)
  have p: "to_number (previousBudgetPercentage opts g d) \<noteq> NaN"
    using budget_percent_not_NaN [OF set]
    by (auto simp: previousBudgetPercentage_def split: table_globals.splits option.splits)
  have "\<exists>c. to_number (budgetPercentage opts g d) = Fin c"
    using budget_percent_finite [OF assms]
    by (cases "showBudget opts g") (simp_all add: budgetPercentage_def)
  then obtain c where c: "to_number (budgetPercentage opts g d) = Fin c"
    by blast
  have "js_sub (to_number (previousBudgetPercentage opts g d)) (Fin c) \<noteq> NaN"
    using p by (cases "to_number (previousBudgetPercentage opts g d)")
      (simp_all add: to_double_not_NaN)
  then have "numstr_value (toFixed2 (js_sub (to_number (previousBudgetPercentage opts g d))
      (Fin c))) \<noteq> NaN"
    by (rule numstr_value_toFixed2_not_NaN)
  with True c show ?thesis
    by (simp add: budgetChange_def del: toFixed2.simps)
qed

text \<open>A printed decimal starts with a sign or a digit, so it never reads \<^verbatim>\<open>+/- <0.01%\<close>.\<close>

lemma digit_char_digit: "digit_char d \<in> set ''0123456789''"
  unfolding digit_char_def by (rule nth_mem) simp

lemma show_nat_hd: "\<exists>c cs. show_nat k = c # cs \<and> c \<in> set ''0123456789''"
proof (induction k rule: show_nat.induct)
  case (1 n)
  show ?case
  proof (cases "n < 10")
    case True
    then have "show_nat n = [digit_char n]"
      by (simp add: show_nat.simps)
    then show ?thesis using digit_char_digit by blast
  next
    case False
    then obtain c cs where "show_nat (n div 10) = c # cs" and "c \<in> set ''0123456789''"
      using "1.IH" by blast
    moreover from False have "show_nat n = show_nat (n div 10) @ [digit_char (n mod 10)]"
      by (subst show_nat.simps) simp
    ultimately show ?thesis by simp
  qed
qed

lemma decimal_text_not_negligible_label:
  "to_text E (Str (Decimal2 neg n)) @ ''%'' \<noteq> ''+/- <0.01%''"
proof -
  obtain c cs where "show_nat (n div 100) = c # cs" and "c \<in> set ''0123456789''"
    using show_nat_hd by blast
  then show ?thesis by auto
qed

section \<open>The sample runs\<close>

lemma sample_changedPages:
  "minimumChangeThreshold opts = None \<Longrightarrow>
   changedPages opts sample_current sample_base =
     [changed_page ''/'' \<lparr> raw = 200, gzip = 100 \<rparr> \<lparr> raw = 100, gzip = 50 \<rparr>,
      changed_page ''/shrunk'' \<lparr> raw = 8, gzip = 5 \<rparr> \<lparr> raw = 20, gzip = 10 \<rparr>]"
  by (simp add: changedPages_def delete_global_def sample_current_def sample_base_def
        over_threshold_def)

lemma sample_newPages:
  "newPages opts sample_current sample_base = [new_page ''/new'' \<lparr> raw = 2, gzip = 1 \<rparr>]"
  by (simp add: newPages_def delete_global_def sample_current_def sample_base_def)

lemma sample_globals:
  "map_of sample_current ''__global'' = Some \<lparr> raw = 200, gzip = 100 \<rparr>"
  "map_of sample_base ''__global'' = Some \<lparr> raw = 120, gzip = 60 \<rparr>"
  by (simp_all add: sample_current_def sample_base_def)

lemma quiet_globals:
  "map_of quiet_current ''__global'' = Some \<lparr> raw = 30, gzip = 20 \<rparr>"
  "map_of quiet_base ''__global'' = Some \<lparr> raw = 30, gzip = 15 \<rparr>"
  by (simp_all add: quiet_current_def quiet_base_def)

lemma quiet_pages:
  "changedPages opts quiet_current quiet_base = []"
  "newPages opts quiet_current quiet_base = []"
  "changedPages opts quiet_base quiet_base = []"
  "newPages opts quiet_base quiet_base = []"
  by (simp_all add: changedPages_def newPages_def delete_global_def quiet_current_def quiet_base_def)

lemma quiet_global_change:
  "globalBundleChanges sample_options \<lparr> raw = 30, gzip = 20 \<rparr> \<lparr> raw = 30, gzip = 15 \<rparr> =
     Some \<lparr> raw = 30, gzip = 20, page = ''global'', rawDiff = None, gzipDiff = Some 5,
            increase = Some True \<rparr>"
  "globalBundleChanges opts \<lparr> raw = 30, gzip = 15 \<rparr> \<lparr> raw = 30, gzip = 15 \<rparr> = None"
  by (simp_all add: globalBundleChanges_def globalGzipDiff_def over_threshold_def
        sample_options_def)

lemma sample_row_values:
  "budgetPercentage sample_options
        (CurrentAndBase \<lparr> raw = 200, gzip = 100 \<rparr> \<lparr> raw = 120, gzip = 60 \<rparr>)
        (changed_page ''/'' \<lparr> raw = 200, gzip = 100 \<rparr> \<lparr> raw = 100, gzip = 50 \<rparr>)
      = Str (Decimal2 False 5000)"
  "previousBudgetPercentage sample_options
        (CurrentAndBase \<lparr> raw = 200, gzip = 100 \<rparr> \<lparr> raw = 120, gzip = 60 \<rparr>)
        (changed_page ''/'' \<lparr> raw = 200, gzip = 100 \<rparr> \<lparr> raw = 100, gzip = 50 \<rparr>)
      = Str (Decimal2 False 6250)"
  "budgetChange sample_options
        (CurrentAndBase \<lparr> raw = 200, gzip = 100 \<rparr> \<lparr> raw = 120, gzip = 60 \<rparr>)
        (changed_page ''/'' \<lparr> raw = 200, gzip = 100 \<rparr> \<lparr> raw = 100, gzip = 50 \<rparr>)
      = Str (Decimal2 False 1250)"
  by (simp_all add: budgetChange_def previousBudgetPercentage_def budgetPercentage_def
        showBudget_def budget_set_def firstLoadSize_def
        changed_page_def budget_percent_def sample_options_def opt_number_def double_eval)





text \<open>
  \<^verbatim>\<open>(29 / 100) * 100\<close> is below 29 in doubles, so a page that grew by 29 bytes to 100
  bytes is below a red threshold of 29.
\<close>

lemma percentChange_29_of_100:
  "js_mul (js_div (Fin 29) (Fin 100)) (Fin 100) = Fin (8162774324609023 / 281474976710656)"
  "js_lt (js_mul (js_div (Fin 29) (Fin 100)) (Fin 100)) (Fin 29)"
  by (simp_all add: double_eval)

section \<open>The claims\<close>

text \<open>
  C1. For a changed page in a table with a budget, a base global bundle and a nonzero gzip
  diff, the prior budget percentage is the prior first load (base global gzip plus the
  page's gzip on the base branch) over the budget, times 100, to two decimals, and the
  reported delta is the current percentage minus the prior one. The script does not
  compute that: at the sample run (budget 400, page \<^verbatim>\<open>/\<close> from 50 to 100 bytes, global
  bundle from 60 to 100 bytes) \<^verbatim>\<open>previousBudgetPercentage\<close> is \<^verbatim>\<open>62.50\<close>, from
  \<open>100 + 100 + 50\<close>, where the prior first load \<open>60 + 50\<close> gives \<^verbatim>\<open>27.50\<close>, and the
  reported delta is \<^verbatim>\<open>12.50\<close> where the percentages differ by \<open>22.5\<close>.
\<close>

theorem previous_budget_percentage_sample:
  "changed_page ''/'' \<lparr> raw = 200, gzip = 100 \<rparr> \<lparr> raw = 100, gzip = 50 \<rparr>
     \<in> set (changedPages sample_options sample_current sample_base)
   \<and> previousBudgetPercentage sample_options
        (CurrentAndBase \<lparr> raw = 200, gzip = 100 \<rparr> \<lparr> raw = 120, gzip = 60 \<rparr>)
        (changed_page ''/'' \<lparr> raw = 200, gzip = 100 \<rparr> \<lparr> raw = 100, gzip = 50 \<rparr>)
      = Str (Decimal2 False 6250)
   \<and> spec_previousBudgetPercentage sample_options
        \<lparr> raw = 120, gzip = 60 \<rparr> \<lparr> raw = 100, gzip = 50 \<rparr>
      = Decimal2 False 2750
   \<and> budgetChange sample_options
        (CurrentAndBase \<lparr> raw = 200, gzip = 100 \<rparr> \<lparr> raw = 120, gzip = 60 \<rparr>)
        (changed_page ''/'' \<lparr> raw = 200, gzip = 100 \<rparr> \<lparr> raw = 100, gzip = 50 \<rparr>)
      = Str (Decimal2 False 1250)
   \<and> spec_budgetChange sample_options
        \<lparr> raw = 200, gzip = 100 \<rparr> \<lparr> raw = 120, gzip = 60 \<rparr>
        \<lparr> raw = 200, gzip = 100 \<rparr> \<lparr> raw = 100, gzip = 50 \<rparr>
      = Fin (45 / 2)"
proof -
  have spec_prev: "spec_previousBudgetPercentage sample_options
        \<lparr> raw = 120, gzip = 60 \<rparr> \<lparr> raw = 100, gzip = 50 \<rparr>
      = Decimal2 False 2750"
    by (simp add: spec_previousBudgetPercentage_def budget_percent_def sample_options_def
          opt_number_def double_eval)
  have spec_change: "spec_budgetChange sample_options
        \<lparr> raw = 200, gzip = 100 \<rparr> \<lparr> raw = 120, gzip = 60 \<rparr>
        \<lparr> raw = 200, gzip = 100 \<rparr> \<lparr> raw = 100, gzip = 50 \<rparr>
      = Fin (45 / 2)"
    by (simp add: spec_budgetChange_def spec_prev)
       (simp add: budget_percent_def sample_options_def opt_number_def double_eval)
  have mem: "changed_page ''/'' \<lparr> raw = 200, gzip = 100 \<rparr> \<lparr> raw = 100, gzip = 50 \<rparr>
     \<in> set (changedPages sample_options sample_current sample_base)"
    by (simp add: sample_changedPages sample_options_def)
  from mem spec_prev spec_change show ?thesis
    by (simp add: sample_row_values)
qed



text \<open>
  C3, as stated: reports with the same pages always give the sentence that nothing
  changed. It fails when only the global bundle changed: the pages of \<open>quiet_current\<close>
  and \<open>quiet_base\<close> are the same and the output is the global bundle section.
\<close>

theorem equal_pages_global_grew_counterexample:
  "wf_report quiet_current
   \<and> map_of (delete_global quiet_current) = map_of (delete_global quiet_base)
   \<and> \<not> skipCommentIfEmpty sample_options
   \<and> compare sample_env sample_options (Parsed quiet_current) (Parsed quiet_base) =
       Inr \<lparr> logged = output_start sample_options @
                       global_section sample_env sample_options
                         \<lparr> raw = 30, gzip = 20, page = ''global'', rawDiff = None,
                           gzipDiff = Some 5, increase = Some True \<rparr> @
                       marker_tag sample_options,
             written = output_start sample_options @
                       global_section sample_env sample_options
                         \<lparr> raw = 30, gzip = 20, page = ''global'', rawDiff = None,
                           gzipDiff = Some 5, increase = Some True \<rparr> @
                       marker_tag sample_options \<rparr>
   \<and> compare sample_env sample_options (Parsed quiet_current) (Parsed quiet_base) \<noteq>
       Inr \<lparr> logged = no_changes_output sample_options,
             written = no_changes_output sample_options \<rparr>"
proof -
  have wf: "wf_report quiet_current"
    by (simp add: wf_report_def quiet_current_def)
  have same: "map_of (delete_global quiet_current) = map_of (delete_global quiet_base)"
    by (simp add: delete_global_def quiet_current_def quiet_base_def)
  have skip: "\<not> skipCommentIfEmpty sample_options"
    by (simp add: sample_options_def)
  have out: "script_output sample_env sample_options quiet_current quiet_base
               \<lparr> raw = 30, gzip = 20 \<rparr> \<lparr> raw = 30, gzip = 15 \<rparr> =
             output_start sample_options @
             global_section sample_env sample_options
               \<lparr> raw = 30, gzip = 20, page = ''global'', rawDiff = None,
                 gzipDiff = Some 5, increase = Some True \<rparr> @
             marker_tag sample_options"
    by (simp add: script_output_def hasNoChanges_def quiet_pages quiet_global_change)
  have run: "compare sample_env sample_options (Parsed quiet_current) (Parsed quiet_base) =
       Inr \<lparr> logged = output_start sample_options @
                       global_section sample_env sample_options
                         \<lparr> raw = 30, gzip = 20, page = ''global'', rawDiff = None,
                           gzipDiff = Some 5, increase = Some True \<rparr> @
                       marker_tag sample_options,
             written = output_start sample_options @
                       global_section sample_env sample_options
                         \<lparr> raw = 30, gzip = 20, page = ''global'', rawDiff = None,
                           gzipDiff = Some 5, increase = Some True \<rparr> @
                       marker_tag sample_options \<rparr>"
    by (simp add: compare_Parsed [OF quiet_globals] out trim_framed)
  have diff: "global_section sample_env sample_options
                \<lparr> raw = 30, gzip = 20, page = ''global'', rawDiff = None,
                  gzipDiff = Some 5, increase = Some True \<rparr> @ marker_tag sample_options
              \<noteq> no_changes_text @ marker_tag sample_options"
    by (simp add: global_section_def no_changes_text_def)
  from wf same skip run diff show ?thesis
    by (simp add: no_changes_output_def)
qed

text \<open>
  C3, as the code has it. When the two reports have the same pages with the same stats
  (the \<^verbatim>\<open>__global\<close> entries apart) and the global bundle change is not flagged (equal
  global gzip sizes, or a delta within \<^verbatim>\<open>minimumChangeThreshold\<close>), the output is the
  heading, the sentence that nothing changed and the marker tag, or the empty string when
  \<^verbatim>\<open>skipCommentIfEmpty\<close> is set.
\<close>

theorem equal_reports_give_no_changes:
  assumes "wf_report currentBundle"
    and "map_of (delete_global currentBundle) = map_of (delete_global baseBundle)"
    and "map_of currentBundle ''__global'' = Some gc"
    and "map_of baseBundle ''__global'' = Some gb"
    and "gzip gc = gzip gb \<or>
         (\<exists>t. minimumChangeThreshold opts = Some t \<and> real_of_int \<bar>gzip gc - gzip gb\<bar> \<le> t)"
  shows "compare E opts (Parsed currentBundle) (Parsed baseBundle) =
           Inr (if skipCommentIfEmpty opts
                then \<lparr> logged = [], written = [] \<rparr>
                else \<lparr> logged = no_changes_output opts, written = no_changes_output opts \<rparr>)"
proof -
  have "\<forall>(pg, s) \<in> set (delete_global currentBundle).
          \<exists>b. map_of (delete_global baseBundle) pg = Some b \<and>
              (gzip s = gzip b \<or> \<not> over_threshold opts (gzip s - gzip b))"
  proof (clarify)
    fix pg s assume "(pg, s) \<in> set (delete_global currentBundle)"
    then have "map_of (delete_global currentBundle) pg = Some s"
      using wf_report_map_of [OF wf_delete_global [OF assms(1)]] by blast
    then show "\<exists>b. map_of (delete_global baseBundle) pg = Some b \<and>
              (gzip s = gzip b \<or> \<not> over_threshold opts (gzip s - gzip b))"
      using assms(2) by simp
  qed
  then have loop: "page_loop opts (delete_global currentBundle) (delete_global baseBundle) ([], [])
      = ([], [])"
    by (rule page_loop_unchanged)
  have g: "globalBundleChanges opts gc gb = None"
    using assms(5) by (auto simp: globalBundleChanges_def globalGzipDiff_def over_threshold_def)
  have no: "hasNoChanges opts currentBundle baseBundle gc gb"
    by (simp add: hasNoChanges_def changedPages_def newPages_def loop g)
  have out: "script_output E opts currentBundle baseBundle gc gb =
      (if skipCommentIfEmpty opts then [] else no_changes_output opts)"
    using no
    by (simp add: script_output_def Let_def no_changes_output_def hasNoChanges_def)
  have "trim (no_changes_output opts) = no_changes_output opts"
    unfolding no_changes_output_def by (rule trim_framed)
  then show ?thesis
    by (simp add: compare_Parsed [OF assms(3,4)] out trim_Nil)
qed

theorem equal_reports_give_no_changes_witness:
  "wf_report quiet_base
   \<and> map_of quiet_base ''__global'' = Some \<lparr> raw = 30, gzip = 15 \<rparr>
   \<and> compare sample_env sample_options (Parsed quiet_base) (Parsed quiet_base) =
       Inr \<lparr> logged = no_changes_output sample_options,
             written = no_changes_output sample_options \<rparr>
   \<and> compare sample_env skip_options (Parsed quiet_base) (Parsed quiet_base) =
       Inr \<lparr> logged = [], written = [] \<rparr>"
proof -
  have wf: "wf_report quiet_base"
    by (simp add: wf_report_def quiet_base_def)
  have same: "map_of (delete_global quiet_base) = map_of (delete_global quiet_base)"
    by simp
  have g: "gzip \<lparr> raw = 30, gzip = 15 \<rparr> = gzip \<lparr> raw = 30, gzip = 15 \<rparr> \<or>
       (\<exists>t. minimumChangeThreshold opts = Some t \<and>
          real_of_int \<bar>gzip \<lparr> raw = 30, gzip = 15 \<rparr> - gzip \<lparr> raw = 30, gzip = 15 \<rparr>\<bar> \<le> t)"
    for opts :: options by simp
  show ?thesis
    using equal_reports_give_no_changes
            [OF wf same quiet_globals(2) quiet_globals(2) g, where opts = sample_options
               and E = sample_env]
          equal_reports_give_no_changes
            [OF wf same quiet_globals(2) quiet_globals(2) g, where opts = skip_options
               and E = sample_env]
          wf quiet_globals(2)
    by (simp add: sample_options_def skip_options_def)
qed

text \<open>
  C4. A global bundle change is flagged exactly when the global gzip delta is nonzero and
  either no \<^verbatim>\<open>minimumChangeThreshold\<close> is configured or the absolute delta is strictly
  greater than it; with a threshold \<open>t\<close> configured and \<open>|delta| \<le> t\<close> nothing is flagged.
\<close>

theorem global_change_flagged_iff:
  "(globalBundleChanges opts gc gb \<noteq> None) =
     (gzip gc - gzip gb \<noteq> 0 \<and>
      (minimumChangeThreshold opts = None \<or>
       (\<exists>t. minimumChangeThreshold opts = Some t \<and> real_of_int \<bar>gzip gc - gzip gb\<bar> > t)))
   \<and> (\<forall>t. minimumChangeThreshold opts = Some t \<and> real_of_int \<bar>gzip gc - gzip gb\<bar> \<le> t
          \<longrightarrow> globalBundleChanges opts gc gb = None)"
  by (auto simp: globalBundleChanges_def globalGzipDiff_def Let_def over_threshold_iff)

theorem global_change_flagged_iff_witness:
  "globalBundleChanges
      \<lparr> budget = None, budgetPercentIncreaseRed = Some 20, showDetails = None,
        name = Some ''app'', skipCommentIfEmpty = False, minimumChangeThreshold = Some 10 \<rparr>
      \<lparr> raw = 300, gzip = 110 \<rparr> \<lparr> raw = 280, gzip = 100 \<rparr> = None
   \<and> globalBundleChanges
      \<lparr> budget = None, budgetPercentIncreaseRed = Some 20, showDetails = None,
        name = Some ''app'', skipCommentIfEmpty = False, minimumChangeThreshold = Some 10 \<rparr>
      \<lparr> raw = 300, gzip = 111 \<rparr> \<lparr> raw = 280, gzip = 100 \<rparr> \<noteq> None"
  using global_change_flagged_iff
          [of "\<lparr> budget = None, budgetPercentIncreaseRed = Some 20, showDetails = None,
                 name = Some ''app'', skipCommentIfEmpty = False,
                 minimumChangeThreshold = Some 10 \<rparr>"
              "\<lparr> raw = 300, gzip = 110 \<rparr>" "\<lparr> raw = 280, gzip = 100 \<rparr>"]
        global_change_flagged_iff
          [of "\<lparr> budget = None, budgetPercentIncreaseRed = Some 20, showDetails = None,
                 name = Some ''app'', skipCommentIfEmpty = False,
                 minimumChangeThreshold = Some 10 \<rparr>"
              "\<lparr> raw = 300, gzip = 111 \<rparr>" "\<lparr> raw = 280, gzip = 100 \<rparr>"]
  by simp

text \<open>
  C5. With a positive red threshold, the status indicator of a percent delta is red exactly
  when the delta is at least the threshold, yellow exactly when the delta is positive and
  below it, and empty or green exactly when the delta is at most zero.
\<close>

theorem status_indicator_colours:
  assumes "budgetPercentIncreaseRed opts = Some r" and "0 < r" and "p \<noteq> NaN"
  shows "((renderStatusIndicator opts p = red_circle @ '' +'') = js_ge p (Fin r))
       \<and> ((renderStatusIndicator opts p = yellow_circle @ '' +'')
            = (js_gt p (Fin 0) \<and> js_lt p (Fin r)))
       \<and> ((renderStatusIndicator opts p = [] \<or>
            renderStatusIndicator opts p = green_circle @ '' '')
            = js_le p (Fin 0))"
  using assms
  by (cases p)
     (auto simp: renderStatusIndicator_def opt_number_def js_gt_def js_ge_def js_le_def
        red_circle_def yellow_circle_def green_circle_def)

theorem status_indicator_colours_witness:
  "budgetPercentIncreaseRed sample_options = Some 20
   \<and> renderStatusIndicator sample_options (Fin 40) = red_circle @ '' +''
   \<and> renderStatusIndicator sample_options (Fin 20) = red_circle @ '' +''
   \<and> renderStatusIndicator sample_options (Fin (25 / 2)) = yellow_circle @ '' +''
   \<and> (renderStatusIndicator sample_options NInf = [] \<or>
       renderStatusIndicator sample_options NInf = green_circle @ '' '')"
proof -
  have r: "budgetPercentIncreaseRed sample_options = Some 20"
    by (simp add: sample_options_def)
  show ?thesis
    using status_indicator_colours [OF r, of "Fin 40"]
          status_indicator_colours [OF r, of "Fin 20"]
          status_indicator_colours [OF r, of "Fin (25 / 2)"]
          status_indicator_colours [OF r, of NInf] r
    by (simp add: js_ge_def js_gt_def js_le_def)
qed

text \<open>
  C6. A page that is in both reports with the same gzip size is neither a changed page nor
  a new page, whatever its raw sizes, and \<^verbatim>\<open>__global\<close> is never among the changed or
  the new pages. No table or section of the output has anything from such a page: the run
  logs and writes the same text as for the two reports without the page.
\<close>

theorem same_gzip_page_not_classified:
  assumes "wf_report currentBundle"
    and "map_of currentBundle pg = Some currentStats"
    and "map_of baseBundle pg = Some baseStats"
    and "gzip currentStats = gzip baseStats"
  shows "pg \<notin> page ` set (changedPages opts currentBundle baseBundle)
       \<and> pg \<notin> page ` set (newPages opts currentBundle baseBundle)
       \<and> ''__global'' \<notin> page ` set (changedPages opts currentBundle baseBundle)
       \<and> ''__global'' \<notin> page ` set (newPages opts currentBundle baseBundle)
       \<and> (pg \<noteq> ''__global'' \<longrightarrow>
            compare E opts (Parsed currentBundle) (Parsed baseBundle) =
            compare E opts (Parsed (filter (\<lambda>(k, v). k \<noteq> pg) currentBundle))
                           (Parsed (filter (\<lambda>(k, v). k \<noteq> pg) baseBundle)))"
proof -
  have c: "pg \<notin> page ` set (changedPages opts currentBundle baseBundle)"
  proof
    assume "pg \<in> page ` set (changedPages opts currentBundle baseBundle)"
    then obtain d where "d \<in> set (changedPages opts currentBundle baseBundle)" and "page d = pg"
      by auto
    then obtain s b where "(pg, s) \<in> set currentBundle" and "map_of baseBundle pg = Some b"
      and "gzip s \<noteq> gzip b"
      using changedPages_mem [of d opts currentBundle baseBundle] by auto
    with assms wf_report_map_of [of currentBundle pg s] show False by simp
  qed
  have n: "pg \<notin> page ` set (newPages opts currentBundle baseBundle)"
  proof
    assume "pg \<in> page ` set (newPages opts currentBundle baseBundle)"
    then obtain d where "d \<in> set (newPages opts currentBundle baseBundle)" and "page d = pg"
      by auto
    then have "map_of baseBundle pg = None"
      using newPages_mem [of d opts currentBundle baseBundle] by auto
    with assms show False by simp
  qed
  have gc: "''__global'' \<notin> page ` set (changedPages opts currentBundle baseBundle)"
    using changedPages_mem [of _ opts currentBundle baseBundle] by fastforce
  have gn: "''__global'' \<notin> page ` set (newPages opts currentBundle baseBundle)"
    using newPages_mem [of _ opts currentBundle baseBundle] by fastforce
  have same: "compare E opts (Parsed currentBundle) (Parsed baseBundle) =
            compare E opts (Parsed (filter (\<lambda>(k, v). k \<noteq> pg) currentBundle))
                           (Parsed (filter (\<lambda>(k, v). k \<noteq> pg) baseBundle))"
    if page: "pg \<noteq> ''__global''"
  proof -
    let ?cur' = "filter (\<lambda>(k, v). k \<noteq> pg) currentBundle"
    let ?base' = "filter (\<lambda>(k, v). k \<noteq> pg) baseBundle"
    have "\<forall>(k, v) \<in> set (delete_global currentBundle).
            k = pg \<longrightarrow> (\<exists>b. map_of (delete_global baseBundle) k = Some b \<and> gzip v = gzip b)"
    proof (clarify)
      fix v assume "(pg, v) \<in> set (delete_global currentBundle)"
      then have "(pg, v) \<in> set currentBundle" by (simp add: set_delete_global)
      then have "v = currentStats"
        using wf_report_map_of [OF assms(1)] assms(2) by fastforce
      then show "\<exists>b. map_of (delete_global baseBundle) pg = Some b \<and> gzip v = gzip b"
        using assms(3,4) page by (simp add: map_of_delete_global)
    qed
    then have a: "page_loop opts (delete_global ?cur') (delete_global baseBundle) ([], []) =
        page_loop opts (delete_global currentBundle) (delete_global baseBundle) ([], [])"
      unfolding delete_global_filter by (rule page_loop_drop_skipped)
    have "\<forall>q \<in> fst ` set (delete_global ?cur').
            map_of (delete_global ?base') q = map_of (delete_global baseBundle) q"
      by (auto simp: set_delete_global map_of_delete_global map_of_filter_other)
    then have b: "page_loop opts (delete_global ?cur') (delete_global ?base') ([], []) =
        page_loop opts (delete_global ?cur') (delete_global baseBundle) ([], [])"
      by (rule page_loop_base_cong)
    have out: "script_output E opts currentBundle baseBundle g1 g2 =
               script_output E opts ?cur' ?base' g1 g2" for g1 g2
      by (simp add: script_output_def hasNoChanges_def changedPages_def newPages_def a b)
    show ?thesis
      by (simp add: compare_def map_of_filter_other [OF not_sym [OF page]] out
            split: option.splits)
  qed
  from c n gc gn same show ?thesis by simp
qed

theorem same_gzip_page_not_classified_witness:
  "wf_report sample_current
   \<and> map_of sample_current ''/same'' = Some \<lparr> raw = 31, gzip = 10 \<rparr>
   \<and> map_of sample_base ''/same'' = Some \<lparr> raw = 30, gzip = 10 \<rparr>
   \<and> ''/same'' \<notin> page ` set (changedPages sample_options sample_current sample_base)
   \<and> ''/same'' \<notin> page ` set (newPages sample_options sample_current sample_base)
   \<and> ''__global'' \<notin> page ` set (changedPages sample_options sample_current sample_base)
   \<and> ''__global'' \<notin> page ` set (newPages sample_options sample_current sample_base)
   \<and> compare sample_env sample_options (Parsed sample_current) (Parsed sample_base) =
       compare sample_env sample_options
         (Parsed [(''/'', \<lparr> raw = 200, gzip = 100 \<rparr>),
                  (''/shrunk'', \<lparr> raw = 8, gzip = 5 \<rparr>),
                  (''/new'', \<lparr> raw = 2, gzip = 1 \<rparr>),
                  (''__global'', \<lparr> raw = 200, gzip = 100 \<rparr>)])
         (Parsed [(''/'', \<lparr> raw = 100, gzip = 50 \<rparr>),
                  (''/shrunk'', \<lparr> raw = 20, gzip = 10 \<rparr>),
                  (''/old'', \<lparr> raw = 40, gzip = 20 \<rparr>),
                  (''__global'', \<lparr> raw = 120, gzip = 60 \<rparr>)])"
proof -
  have wf: "wf_report sample_current"
    by (simp add: wf_report_def sample_current_def)
  have c: "map_of sample_current ''/same'' = Some \<lparr> raw = 31, gzip = 10 \<rparr>"
    by (simp add: sample_current_def)
  have b: "map_of sample_base ''/same'' = Some \<lparr> raw = 30, gzip = 10 \<rparr>"
    by (simp add: sample_base_def)
  have g: "gzip \<lparr> raw = 31, gzip = 10 \<rparr> = gzip \<lparr> raw = 30, gzip = 10 \<rparr>"
    by simp
  have fc: "filter (\<lambda>(k, v). k \<noteq> ''/same'') sample_current =
      [(''/'', \<lparr> raw = 200, gzip = 100 \<rparr>),
       (''/shrunk'', \<lparr> raw = 8, gzip = 5 \<rparr>),
       (''/new'', \<lparr> raw = 2, gzip = 1 \<rparr>),
       (''__global'', \<lparr> raw = 200, gzip = 100 \<rparr>)]"
    by (simp add: sample_current_def)
  have fb: "filter (\<lambda>(k, v). k \<noteq> ''/same'') sample_base =
      [(''/'', \<lparr> raw = 100, gzip = 50 \<rparr>),
       (''/shrunk'', \<lparr> raw = 20, gzip = 10 \<rparr>),
       (''/old'', \<lparr> raw = 40, gzip = 20 \<rparr>),
       (''__global'', \<lparr> raw = 120, gzip = 60 \<rparr>)]"
    by (simp add: sample_base_def)
  show ?thesis
    using same_gzip_page_not_classified [OF wf c b g, where opts = sample_options
            and E = sample_env] wf c b
    by (simp add: fc fb)
qed

text \<open>
  C7. A page of the base report that the current report does not have is neither a changed
  nor a new page (there is no list of removed pages), and the run gives the same result
  as with a base report without that page.
\<close>

theorem base_only_page_contributes_nothing:
  assumes "pg \<notin> fst ` set currentBundle" and "pg \<noteq> ''__global''"
  shows "pg \<notin> page ` set (changedPages opts currentBundle baseBundle)
       \<and> pg \<notin> page ` set (newPages opts currentBundle baseBundle)
       \<and> compare E opts (Parsed currentBundle) (Parsed baseBundle) =
           compare E opts (Parsed currentBundle)
             (Parsed (filter (\<lambda>(k, v). k \<noteq> pg) baseBundle))"
proof -
  let ?base' = "filter (\<lambda>(k, v). k \<noteq> pg) baseBundle"
  have lookup: "map_of ?base' q = map_of baseBundle q" if "q \<noteq> pg" for q
    using that by (induction baseBundle) auto
  have c: "pg \<notin> page ` set (changedPages opts currentBundle baseBundle)"
  proof
    assume "pg \<in> page ` set (changedPages opts currentBundle baseBundle)"
    then obtain d where "d \<in> set (changedPages opts currentBundle baseBundle)" and "page d = pg"
      by auto
    then obtain s where "(pg, s) \<in> set currentBundle"
      using changedPages_mem [of d opts currentBundle baseBundle] by auto
    with assms(1) show False by force
  qed
  have n: "pg \<notin> page ` set (newPages opts currentBundle baseBundle)"
  proof
    assume "pg \<in> page ` set (newPages opts currentBundle baseBundle)"
    then obtain d where "d \<in> set (newPages opts currentBundle baseBundle)" and "page d = pg"
      by auto
    then obtain s where "(pg, s) \<in> set currentBundle"
      using newPages_mem [of d opts currentBundle baseBundle] by auto
    with assms(1) show False by force
  qed
  have "\<forall>q \<in> fst ` set (delete_global currentBundle).
          map_of (delete_global baseBundle) q = map_of (delete_global ?base') q"
  proof
    fix q assume "q \<in> fst ` set (delete_global currentBundle)"
    then have "q \<in> fst ` set currentBundle"
      by (auto simp: set_delete_global)
    with assms(1) have "q \<noteq> pg" by auto
    then show "map_of (delete_global baseBundle) q = map_of (delete_global ?base') q"
      by (simp add: map_of_delete_global lookup)
  qed
  then have loop: "page_loop opts (delete_global currentBundle) (delete_global baseBundle) ([], [])
      = page_loop opts (delete_global currentBundle) (delete_global ?base') ([], [])"
    by (rule page_loop_base_cong)
  have out: "script_output E opts currentBundle baseBundle gc gb =
             script_output E opts currentBundle ?base' gc gb" for gc gb
    by (simp add: script_output_def hasNoChanges_def changedPages_def newPages_def loop)
  have "compare E opts (Parsed currentBundle) (Parsed baseBundle) =
        compare E opts (Parsed currentBundle) (Parsed ?base')"
    by (simp add: compare_def lookup [OF not_sym [OF assms(2)]] out split: option.splits)
  with c n show ?thesis by simp
qed

theorem base_only_page_contributes_nothing_witness:
  "''/old'' \<in> fst ` set sample_base
   \<and> ''/old'' \<notin> fst ` set sample_current
   \<and> ''/old'' \<notin> page ` set (changedPages sample_options sample_current sample_base)
   \<and> ''/old'' \<notin> page ` set (newPages sample_options sample_current sample_base)
   \<and> compare sample_env sample_options (Parsed sample_current) (Parsed sample_base) =
       compare sample_env sample_options (Parsed sample_current)
         (Parsed [(''/'', \<lparr> raw = 100, gzip = 50 \<rparr>),
                  (''/same'', \<lparr> raw = 30, gzip = 10 \<rparr>),
                  (''/shrunk'', \<lparr> raw = 20, gzip = 10 \<rparr>),
                  (''__global'', \<lparr> raw = 120, gzip = 60 \<rparr>)])"
proof -
  have a: "''/old'' \<notin> fst ` set sample_current"
    by (simp add: sample_current_def)
  have b: "''/old'' \<noteq> ''__global''"
    by simp
  have c: "''/old'' \<in> fst ` set sample_base"
    by (simp add: sample_base_def)
  have f: "filter (\<lambda>(k, v). k \<noteq> ''/old'') sample_base =
             [(''/'', \<lparr> raw = 100, gzip = 50 \<rparr>),
              (''/same'', \<lparr> raw = 30, gzip = 10 \<rparr>),
              (''/shrunk'', \<lparr> raw = 20, gzip = 10 \<rparr>),
              (''__global'', \<lparr> raw = 120, gzip = 60 \<rparr>)]"
    by (simp add: sample_base_def)
  show ?thesis
    using base_only_page_contributes_nothing
            [OF a b, where opts = sample_options and baseBundle = sample_base
               and E = sample_env] a c
    by (simp add: f)
qed

text \<open>
  C8, as stated: every output ends with the marker tag. It fails when nothing changed and
  \<^verbatim>\<open>skipCommentIfEmpty\<close> is set: the output is empty.
\<close>

theorem skipped_comment_has_no_marker_counterexample:
  "hasNoChanges skip_options quiet_base quiet_base
     \<lparr> raw = 30, gzip = 15 \<rparr> \<lparr> raw = 30, gzip = 15 \<rparr>
   \<and> skipCommentIfEmpty skip_options
   \<and> compare sample_env skip_options (Parsed quiet_base) (Parsed quiet_base) =
       Inr \<lparr> logged = [], written = [] \<rparr>
   \<and> \<not> suffix (marker_tag skip_options) []"
proof -
  have no: "hasNoChanges skip_options quiet_base quiet_base
     \<lparr> raw = 30, gzip = 15 \<rparr> \<lparr> raw = 30, gzip = 15 \<rparr>"
    by (simp add: hasNoChanges_def quiet_pages quiet_global_change)
  have skip: "skipCommentIfEmpty skip_options"
    by (simp add: skip_options_def)
  have out: "script_output sample_env skip_options quiet_base quiet_base
               \<lparr> raw = 30, gzip = 15 \<rparr> \<lparr> raw = 30, gzip = 15 \<rparr> = []"
    using no skip by (simp add: script_output_def)
  have run: "compare sample_env skip_options (Parsed quiet_base) (Parsed quiet_base) =
       Inr \<lparr> logged = [], written = [] \<rparr>"
    by (simp add: compare_Parsed [OF quiet_globals(2) quiet_globals(2)] out trim_Nil)
  have "marker_tag skip_options \<noteq> []"
    by (simp add: marker_tag_def)
  with no skip run show ?thesis by simp
qed

text \<open>
  C8, as the code has it. The logged output and the written file end with the marker tag
  \<^verbatim>\<open><!-- __NEXTJS_BUNDLE_<name> -->\<close>, except when nothing changed and
  \<^verbatim>\<open>skipCommentIfEmpty\<close> is set: both are then empty.
\<close>

theorem marker_tag_ends_output:
  assumes "map_of currentBundle ''__global'' = Some gc"
    and "map_of baseBundle ''__global'' = Some gb"
  shows "\<exists>r. compare E opts (Parsed currentBundle) (Parsed baseBundle) = Inr r \<and>
           (if hasNoChanges opts currentBundle baseBundle gc gb \<and> skipCommentIfEmpty opts
            then logged r = [] \<and> written r = []
            else suffix (marker_tag opts) (logged r) \<and> suffix (marker_tag opts) (written r))"
proof (cases "hasNoChanges opts currentBundle baseBundle gc gb \<and> skipCommentIfEmpty opts")
  case True
  then have "script_output E opts currentBundle baseBundle gc gb = []"
    by (simp add: script_output_def Let_def)
  with True show ?thesis
    by (simp add: compare_Parsed [OF assms] trim_Nil)
next
  case False
  then obtain X where X: "script_output E opts currentBundle baseBundle gc gb =
      output_start opts @ X @ marker_tag opts"
    using script_output_shape by blast
  have "suffix (marker_tag opts) (output_start opts @ X @ marker_tag opts)"
    by (simp add: suffix_def)
  with False X show ?thesis
    by (auto simp: compare_Parsed [OF assms] trim_framed)
qed

theorem marker_tag_ends_output_witness:
  "map_of sample_current ''__global'' = Some \<lparr> raw = 200, gzip = 100 \<rparr>
   \<and> map_of sample_base ''__global'' = Some \<lparr> raw = 120, gzip = 60 \<rparr>
   \<and> (\<exists>r. compare sample_env sample_options (Parsed sample_current) (Parsed sample_base) = Inr r
          \<and> suffix (marker_tag sample_options) (logged r)
          \<and> suffix (marker_tag sample_options) (written r))"
proof -
  have "\<not> hasNoChanges sample_options sample_current sample_base
            \<lparr> raw = 200, gzip = 100 \<rparr> \<lparr> raw = 120, gzip = 60 \<rparr>"
    by (simp add: hasNoChanges_def sample_newPages)
  then show ?thesis
    using marker_tag_ends_output [OF sample_globals, where E = sample_env and opts = sample_options] sample_globals
    by simp
qed

text \<open>
  C9. When either report file is missing or is not valid JSON, the run ends with a load
  error: nothing is logged and nothing is written.
\<close>

theorem load_failure_is_fatal:
  assumes "currentFile = Missing \<or> currentFile = Malformed \<or>
           baseFile = Missing \<or> baseFile = Malformed"
  shows "compare E opts currentFile baseFile = Inl LoadError"
  using assms by (cases currentFile; cases baseFile) (auto simp: compare_def)

theorem load_failure_is_fatal_witness:
  "compare sample_env sample_options Missing (Parsed sample_base) = Inl LoadError
   \<and> compare sample_env sample_options (Parsed sample_current) Malformed = Inl LoadError"
  using load_failure_is_fatal [of Missing "Parsed sample_base" sample_env sample_options]
    load_failure_is_fatal [of "Parsed sample_current" Malformed sample_env sample_options]
  by simp

text \<open>
  C10. Every changed page has a nonzero gzip delta and \<^verbatim>\<open>increase = true\<close>, also when
  it shrank: \<^verbatim>\<open>increase\<close> of a changed page says that the delta is not zero. For the
  global bundle \<^verbatim>\<open>increase\<close> says that the global gzip delta is positive.
\<close>

theorem increase_flags:
  "(\<forall>d \<in> set (changedPages opts currentBundle baseBundle).
      \<exists>gd. gzipDiff d = Some gd \<and> gd \<noteq> 0 \<and> increase d = Some True)
   \<and> increase (changed_page pg currentStats baseStats) =
       Some (gzip currentStats - gzip baseStats \<noteq> 0)
   \<and> (\<forall>g. globalBundleChanges opts gc gb = Some g \<longrightarrow>
          increase g = Some (0 < gzip gc - gzip gb))"
proof -
  have 1: "\<forall>d \<in> set (changedPages opts currentBundle baseBundle).
      \<exists>gd. gzipDiff d = Some gd \<and> gd \<noteq> 0 \<and> increase d = Some True"
  proof
    fix d assume "d \<in> set (changedPages opts currentBundle baseBundle)"
    then obtain p s b where "gzip s \<noteq> gzip b" and "d = changed_page p s b"
      using changedPages_mem by blast
    then show "\<exists>gd. gzipDiff d = Some gd \<and> gd \<noteq> 0 \<and> increase d = Some True"
      by (simp add: changed_page_def sgn_eq_0_iff)
  qed
  have 2: "increase (changed_page pg currentStats baseStats) =
       Some (gzip currentStats - gzip baseStats \<noteq> 0)"
    by (simp add: changed_page_def sgn_eq_0_iff)
  have 3: "\<forall>g. globalBundleChanges opts gc gb = Some g \<longrightarrow>
          increase g = Some (0 < gzip gc - gzip gb)"
    by (auto simp: globalBundleChanges_def globalGzipDiff_def Let_def split: if_splits)
  from 1 2 3 show ?thesis by blast
qed

theorem increase_flags_witness:
  "changed_page ''/shrunk'' \<lparr> raw = 8, gzip = 5 \<rparr> \<lparr> raw = 20, gzip = 10 \<rparr>
     \<in> set (changedPages sample_options sample_current sample_base)
   \<and> gzipDiff (changed_page ''/shrunk'' \<lparr> raw = 8, gzip = 5 \<rparr> \<lparr> raw = 20, gzip = 10 \<rparr>)
       = Some (- 5)
   \<and> increase (changed_page ''/shrunk'' \<lparr> raw = 8, gzip = 5 \<rparr> \<lparr> raw = 20, gzip = 10 \<rparr>)
       = Some True
   \<and> globalBundleChanges sample_options \<lparr> raw = 30, gzip = 20 \<rparr> \<lparr> raw = 30, gzip = 15 \<rparr> =
       Some \<lparr> raw = 30, gzip = 20, page = ''global'', rawDiff = None, gzipDiff = Some 5,
              increase = Some True \<rparr>
   \<and> increase \<lparr> raw = 30, gzip = 20, page = ''global'', rawDiff = None, gzipDiff = Some 5,
                increase = Some True \<rparr>
       = Some (0 < gzip \<lparr> raw = 30, gzip = 20 \<rparr> - gzip \<lparr> raw = 30, gzip = 15 \<rparr>)"
proof -
  have m: "changed_page ''/shrunk'' \<lparr> raw = 8, gzip = 5 \<rparr> \<lparr> raw = 20, gzip = 10 \<rparr>
     \<in> set (changedPages sample_options sample_current sample_base)"
    by (simp add: sample_changedPages sample_options_def)
  have d: "gzipDiff (changed_page ''/shrunk'' \<lparr> raw = 8, gzip = 5 \<rparr> \<lparr> raw = 20, gzip = 10 \<rparr>)
       = Some (- 5)"
    by (simp add: changed_page_def)
  note t = increase_flags [where opts = sample_options and currentBundle = sample_current
      and baseBundle = sample_base and pg = "''/shrunk''"
      and currentStats = "\<lparr> raw = 8, gzip = 5 \<rparr>" and baseStats = "\<lparr> raw = 20, gzip = 10 \<rparr>"
      and gc = "\<lparr> raw = 30, gzip = 20 \<rparr>" and gb = "\<lparr> raw = 30, gzip = 15 \<rparr>"]
  from t have i: "increase (changed_page ''/shrunk'' \<lparr> raw = 8, gzip = 5 \<rparr> \<lparr> raw = 20, gzip = 10 \<rparr>)
       = Some True"
    using m by blast
  from t quiet_global_change(1) have
    "increase \<lparr> raw = 30, gzip = 20, page = ''global'', rawDiff = None, gzipDiff = Some 5,
                increase = Some True \<rparr>
       = Some (0 < gzip \<lparr> raw = 30, gzip = 20 \<rparr> - gzip \<lparr> raw = 30, gzip = 15 \<rparr>)"
    by blast
  with m d i quiet_global_change(1) show ?thesis by blast
qed

end
